theory Spec2Isabelle
  imports Main "HOL-Library.AList" "HOL-Library.Sublist"
begin

section \<open>JavaScript values\<close>

text \<open>
  The service is TypeScript whose behaviour rests on JavaScript's dynamic operators:
  \<^verbatim>\<open>a || b\<close>, \<^verbatim>\<open>a && b\<close>, optional chaining \<^verbatim>\<open>a?.b\<close>, template literals and property
  reads on values of type \<^verbatim>\<open>any\<close> (the HTTP response body, a caught error). Those
  values are modelled by \<open>jsval\<close>. An object is the list of its own properties in
  enumeration order; a read takes the first entry for a key. Numbers are the integers:
  a non-integral number is floating point and has no value here. A string is a list of
  8-bit characters.
\<close>

datatype jsval =
    JUndefined
  | JNull
  | JBool bool
  | JNum int
  | JStr string
  | JArr "jsval list"
  | JObj "(string \<times> jsval) list"

type_synonym js_object = "(string \<times> jsval) list"

text \<open>ToBoolean: what \<^verbatim>\<open>||\<close>, \<^verbatim>\<open>&&\<close>, \<^verbatim>\<open>!\<close> and \<^verbatim>\<open>if\<close> test.\<close>

fun truthy :: "jsval \<Rightarrow> bool" where
  "truthy JUndefined = False"
| "truthy JNull = False"
| "truthy (JBool b) = b"
| "truthy (JNum n) = (n \<noteq> 0)"
| "truthy (JStr s) = (s \<noteq> [])"
| "truthy (JArr xs) = True"
| "truthy (JObj fs) = True"

definition js_or :: "jsval \<Rightarrow> jsval \<Rightarrow> jsval" where
  "js_or a b = (if truthy a then a else b)"

definition js_and :: "jsval \<Rightarrow> jsval \<Rightarrow> jsval" where
  "js_and a b = (if truthy a then b else a)"

fun nullish :: "jsval \<Rightarrow> bool" where
  "nullish JUndefined = True"
| "nullish JNull = True"
| "nullish v = False"

definition obj_get :: "js_object \<Rightarrow> string \<Rightarrow> jsval" where
  "obj_get fs k = (case map_of fs k of None \<Rightarrow> JUndefined | Some v \<Rightarrow> v)"

text \<open>
  \<open>js_get v k\<close> is \<^verbatim>\<open>v.k\<close> for a value \<open>v\<close> that is neither \<^verbatim>\<open>null\<close> nor
  \<^verbatim>\<open>undefined\<close> and a name \<open>k\<close> that no built-in prototype defines (the service reads
  \<^verbatim>\<open>choices\<close>, \<^verbatim>\<open>message\<close>, \<^verbatim>\<open>content\<close>, \<^verbatim>\<open>status\<close>, \<^verbatim>\<open>data\<close>): a primitive or
  an array has no such property. \<open>js_index v i\<close> is \<^verbatim>\<open>v[i]\<close>.
\<close>

fun js_get :: "jsval \<Rightarrow> string \<Rightarrow> jsval" where
  "js_get (JObj fs) k = obj_get fs k"
| "js_get v k = JUndefined"

fun digits :: "nat \<Rightarrow> string" where
  "digits n =
     (if n < 10 then [''0123456789'' ! n]
      else digits (n div 10) @ [''0123456789'' ! (n mod 10)])"

definition Number_toString :: "int \<Rightarrow> string" where
  "Number_toString n = (if n < 0 then ''-'' @ digits (nat (- n)) else digits (nat n))"

fun js_index :: "jsval \<Rightarrow> nat \<Rightarrow> jsval" where
  "js_index (JArr xs) i = (if i < length xs then xs ! i else JUndefined)"
| "js_index (JStr s) i = (if i < length s then JStr [s ! i] else JUndefined)"
| "js_index (JObj fs) i = obj_get fs (digits i)"
| "js_index v i = JUndefined"

text \<open>Optional chaining: \<^verbatim>\<open>v?.k\<close> and \<^verbatim>\<open>v?.[i]\<close>.\<close>

definition opt_get :: "jsval \<Rightarrow> string \<Rightarrow> jsval" where
  "opt_get v k = (if nullish v then JUndefined else js_get v k)"

definition opt_index :: "jsval \<Rightarrow> nat \<Rightarrow> jsval" where
  "opt_index v i = (if nullish v then JUndefined else js_index v i)"

fun join :: "string \<Rightarrow> string list \<Rightarrow> string" where
  "join sep [] = []"
| "join sep [x] = x"
| "join sep (x # y # ys) = x @ sep @ join sep (y # ys)"

text \<open>ToString: what a template literal \<^verbatim>\<open>`${v}`\<close> puts in for \<open>v\<close>. A number is
  printed digit by digit, as the language prints an integer below \<open>10 ^ 21\<close> in
  magnitude; from there on the language prints the exponent form.\<close>

fun ToString :: "jsval \<Rightarrow> string" where
  "ToString JUndefined = ''undefined''"
| "ToString JNull = ''null''"
| "ToString (JBool b) = (if b then ''true'' else ''false'')"
| "ToString (JNum n) = Number_toString n"
| "ToString (JStr s) = s"
| "ToString (JArr xs) = join '','' (map (\<lambda>x. if nullish x then [] else ToString x) xs)"
| "ToString (JObj fs) = ''[object Object]''"

text \<open>
  Spreading \<^verbatim>\<open>...v\<close> into an object literal copies the own properties of an object
  (the indexed entries of a string or an array) and nothing of any other value.
\<close>

fun spread :: "jsval \<Rightarrow> js_object" where
  "spread (JObj fs) = fs"
| "spread (JStr s) = map (\<lambda>i. (digits i, JStr [s ! i])) [0..<length s]"
| "spread (JArr xs) = map (\<lambda>i. (digits i, xs ! i)) [0..<length xs]"
| "spread v = []"

text \<open>\<^verbatim>\<open>new Error(msg)\<close>: an object whose own property \<^verbatim>\<open>message\<close> is \<open>msg\<close>.\<close>

definition new_Error :: "string \<Rightarrow> js_object" where
  "new_Error msg = [(''message'', JStr msg)]"

text \<open>
  What the service takes from the language runtime: \<^verbatim>\<open>JSON.parse\<close> (a text to a value,
  or a thrown \<^verbatim>\<open>SyntaxError\<close>), \<^verbatim>\<open>JSON.stringify(v, null, gap)\<close> (a string, or
  \<^verbatim>\<open>undefined\<close>) and the message of the \<^verbatim>\<open>TypeError\<close> thrown when property \<open>k\<close> of
  \<^verbatim>\<open>null\<close> or \<^verbatim>\<open>undefined\<close> is read. The service is a function of these; the
  theorems hold for every runtime.
\<close>

record js_runtime =
  JSON_parse :: "string \<Rightarrow> js_object + jsval"
  JSON_stringify :: "jsval \<Rightarrow> nat \<Rightarrow> jsval"
  TypeError_message :: "jsval \<Rightarrow> string \<Rightarrow> string"

definition read_property :: "js_runtime \<Rightarrow> jsval \<Rightarrow> string \<Rightarrow> js_object + jsval" where
  "read_property rt v k =
     (if nullish v then Inl (new_Error (TypeError_message rt v k)) else Inr (js_get v k))"

section \<open>A reference runtime\<close>

text \<open>
  A runtime to evaluate the service on concrete inputs: a JSON parser and printer over
  \<open>jsval\<close>, after ECMA-404 and Node's \<^verbatim>\<open>JSON\<close> object. The parser agrees with
  \<^verbatim>\<open>JSON.parse\<close> on every text whose value is a \<open>jsval\<close>; a text that holds a
  non-integral number or escapes a character above U+00FF has no value here and is
  reported as an error, as is every text that is not JSON. Error messages are fixed
  texts, not the engine's; an integer keeps every digit, where the engine rounds one
  above \<open>2 ^ 53\<close>; the properties of an object stay in the order of the text, where
  the engine puts integer-like keys first. The theorems about the service take the
  runtime as a parameter and rest on none of this.
\<close>

definition is_ws :: "char \<Rightarrow> bool" where
  "is_ws c = (c \<in> set [CHR '' '', CHR 0x09, CHR 0x0A, CHR 0x0D])"

definition skip_ws :: "string \<Rightarrow> string" where
  "skip_ws cs = dropWhile is_ws cs"

definition is_digit :: "char \<Rightarrow> bool" where
  "is_digit c = (c \<in> set ''0123456789'')"

definition digit_val :: "char \<Rightarrow> nat" where
  "digit_val c = of_char c - 48"

definition number_of :: "string \<Rightarrow> nat" where
  "number_of ds = foldl (\<lambda>a c. 10 * a + digit_val c) 0 ds"

definition hex_val :: "char \<Rightarrow> nat option" where
  "hex_val c =
     (if is_digit c then Some (of_char c - 48)
      else if c \<in> set ''abcdef'' then Some (of_char c - 87)
      else if c \<in> set ''ABCDEF'' then Some (of_char c - 55)
      else None)"

definition escapes :: "(char \<times> char) list" where
  "escapes =
     [(CHR 0x22, CHR 0x22), (CHR 0x5C, CHR 0x5C), (CHR ''/'', CHR ''/''),
      (CHR ''b'', CHR 0x08), (CHR ''f'', CHR 0x0C), (CHR ''n'', CHR 0x0A),
      (CHR ''r'', CHR 0x0D), (CHR ''t'', CHR 0x09)]"

text \<open>The characters of a string literal after its opening quote, and the rest.\<close>

fun parse_chars :: "string \<Rightarrow> (string \<times> string) option" where
  "parse_chars [] = None"
| "parse_chars (c # cs) =
     (if c = CHR 0x22 then Some ([], cs)
      else if c = CHR 0x5C then
        (case cs of
           [] \<Rightarrow> None
         | e # r \<Rightarrow>
             (if e = CHR ''u'' then
                (case r of
                   h1 # h2 # h3 # h4 # r' \<Rightarrow>
                     (case (hex_val h1, hex_val h2, hex_val h3, hex_val h4) of
                        (Some x, Some y, Some z, Some w) \<Rightarrow>
                          (if x = 0 \<and> y = 0
                           then map_option (\<lambda>p. (char_of (16 * z + w) # fst p, snd p))
                                  (parse_chars r')
                           else None)
                      | _ \<Rightarrow> None)
                 | _ \<Rightarrow> None)
              else
                (case map_of escapes e of
                   None \<Rightarrow> None
                 | Some ch \<Rightarrow> map_option (\<lambda>p. (ch # fst p, snd p)) (parse_chars r))))
      else if (of_char c :: nat) < 32 then None
      else map_option (\<lambda>p. (c # fst p, snd p)) (parse_chars cs))"

definition parse_fraction :: "string \<Rightarrow> (string \<times> string) option" where
  "parse_fraction cs =
     (case cs of
        [] \<Rightarrow> Some ([], [])
      | c # r \<Rightarrow>
          (if c = CHR ''.''
           then (if takeWhile is_digit r = [] then None
                 else Some (takeWhile is_digit r, dropWhile is_digit r))
           else Some ([], cs)))"

definition parse_sign :: "string \<Rightarrow> int \<times> string" where
  "parse_sign cs =
     (case cs of
        [] \<Rightarrow> (1, [])
      | c # r \<Rightarrow>
          (if c = CHR ''+'' then (1, r) else if c = CHR ''-'' then (- 1, r) else (1, cs)))"

definition parse_exponent :: "string \<Rightarrow> (int \<times> string) option" where
  "parse_exponent cs =
     (case cs of
        [] \<Rightarrow> Some (0, [])
      | c # r \<Rightarrow>
          (if c = CHR ''e'' \<or> c = CHR ''E''
           then (let (sg, r1) = parse_sign r
                 in if takeWhile is_digit r1 = [] then None
                    else Some (sg * int (number_of (takeWhile is_digit r1)),
                               dropWhile is_digit r1))
           else Some (0, cs)))"

text \<open>\<open>m\<close> times ten to the \<open>e\<close>, where that is an integer.\<close>

definition scale :: "nat \<Rightarrow> int \<Rightarrow> nat option" where
  "scale m e =
     (if 0 \<le> e then Some (m * 10 ^ nat e)
      else if m mod 10 ^ nat (- e) = 0 then Some (m div 10 ^ nat (- e))
      else None)"

definition parse_number :: "string \<Rightarrow> (jsval \<times> string) option" where
  "parse_number cs =
     (let (neg, cs1) =
            (case cs of
               [] \<Rightarrow> (False, [])
             | c # r \<Rightarrow> if c = CHR ''-'' then (True, r) else (False, cs));
          ip = takeWhile is_digit cs1
      in if ip = [] \<or> (1 < length ip \<and> hd ip = CHR ''0'') then None
         else
           (case parse_fraction (dropWhile is_digit cs1) of
              None \<Rightarrow> None
            | Some (fp, cs3) \<Rightarrow>
                (case parse_exponent cs3 of
                   None \<Rightarrow> None
                 | Some (e, cs4) \<Rightarrow>
                     (case scale (number_of (ip @ fp)) (e - int (length fp)) of
                        None \<Rightarrow> None
                      | Some n \<Rightarrow> Some (JNum (if neg then - int n else int n), cs4)))))"

definition parse_literal :: "string \<Rightarrow> (jsval \<times> string) option" where
  "parse_literal cs =
     (if take 4 cs = ''true'' then Some (JBool True, drop 4 cs)
      else if take 5 cs = ''false'' then Some (JBool False, drop 5 cs)
      else if take 4 cs = ''null'' then Some (JNull, drop 4 cs)
      else None)"

text \<open>
  Recursive descent, bounded by a fuel that \<open>node_JSON_parse\<close> sets to twice the
  length of the text and two: every two nested calls consume a character. A repeated
  key keeps its first place and its last value.
\<close>

fun parse_value :: "nat \<Rightarrow> string \<Rightarrow> (jsval \<times> string) option"
  and parse_elements :: "nat \<Rightarrow> jsval list \<Rightarrow> string \<Rightarrow> (jsval \<times> string) option"
  and parse_members :: "nat \<Rightarrow> js_object \<Rightarrow> string \<Rightarrow> (jsval \<times> string) option" where
  "parse_value 0 cs = None"
| "parse_value (Suc n) cs =
     (case skip_ws cs of
        [] \<Rightarrow> None
      | c # r \<Rightarrow>
          (if c = CHR ''{'' then
             (case skip_ws r of
                [] \<Rightarrow> None
              | c' # r' \<Rightarrow>
                  if c' = CHR ''}'' then Some (JObj [], r') else parse_members n [] (c' # r'))
           else if c = CHR ''['' then
             (case skip_ws r of
                [] \<Rightarrow> None
              | c' # r' \<Rightarrow>
                  if c' = CHR '']'' then Some (JArr [], r') else parse_elements n [] (c' # r'))
           else if c = CHR 0x22 then map_option (\<lambda>p. (JStr (fst p), snd p)) (parse_chars r)
           else if c = CHR ''-'' \<or> is_digit c then parse_number (c # r)
           else parse_literal (c # r)))"
| "parse_elements 0 acc cs = None"
| "parse_elements (Suc n) acc cs =
     (case parse_value n cs of
        None \<Rightarrow> None
      | Some (v, r) \<Rightarrow>
          (case skip_ws r of
             [] \<Rightarrow> None
           | c # r' \<Rightarrow>
               (if c = CHR '','' then parse_elements n (acc @ [v]) r'
                else if c = CHR '']'' then Some (JArr (acc @ [v]), r')
                else None)))"
| "parse_members 0 acc cs = None"
| "parse_members (Suc n) acc cs =
     (case skip_ws cs of
        [] \<Rightarrow> None
      | q # r \<Rightarrow>
          (if q \<noteq> CHR 0x22 then None
           else
             (case parse_chars r of
                None \<Rightarrow> None
              | Some (k, r1) \<Rightarrow>
                  (case skip_ws r1 of
                     [] \<Rightarrow> None
                   | c # r2 \<Rightarrow>
                       (if c \<noteq> CHR '':'' then None
                        else
                          (case parse_value n r2 of
                             None \<Rightarrow> None
                           | Some (v, r3) \<Rightarrow>
                               (case skip_ws r3 of
                                  [] \<Rightarrow> None
                                | d # r4 \<Rightarrow>
                                    (if d = CHR '','' then
                                       parse_members n (AList.update k v acc) r4
                                     else if d = CHR ''}'' then
                                       Some (JObj (AList.update k v acc), r4)
                                     else None))))))))"

definition node_JSON_parse :: "string \<Rightarrow> js_object + jsval" where
  "node_JSON_parse text =
     (case parse_value (2 * length text + 2) text of
        None \<Rightarrow> Inl (new_Error ''Unexpected token in JSON'')
      | Some (v, r) \<Rightarrow>
          (if skip_ws r = [] then Inr v else Inl (new_Error ''Unexpected token in JSON'')))"

definition hex_digit :: "nat \<Rightarrow> char" where
  "hex_digit n = ''0123456789abcdef'' ! n"

definition quote_char :: "char \<Rightarrow> string" where
  "quote_char c =
     (if c = CHR 0x22 then [CHR 0x5C, CHR 0x22]
      else if c = CHR 0x5C then [CHR 0x5C, CHR 0x5C]
      else if c = CHR 0x08 then [CHR 0x5C, CHR ''b'']
      else if c = CHR 0x0C then [CHR 0x5C, CHR ''f'']
      else if c = CHR 0x0A then [CHR 0x5C, CHR ''n'']
      else if c = CHR 0x0D then [CHR 0x5C, CHR ''r'']
      else if c = CHR 0x09 then [CHR 0x5C, CHR ''t'']
      else if (of_char c :: nat) < 32 then
        [CHR 0x5C, CHR ''u'', CHR ''0'', CHR ''0'',
         hex_digit (of_char c div 16), hex_digit (of_char c mod 16)]
      else [c])"

definition quote :: "string \<Rightarrow> string" where
  "quote s = [CHR 0x22] @ concat (map quote_char s) @ [CHR 0x22]"

definition wrap :: "nat \<Rightarrow> string \<Rightarrow> string \<Rightarrow> string \<Rightarrow> string list \<Rightarrow> string" where
  "wrap gap ind l r items =
     (if items = [] then l @ r
      else if gap = 0 then l @ join '','' items @ r
      else l @ [CHR 0x0A] @ ind @ replicate gap CHR '' ''
             @ join ('','' @ [CHR 0x0A] @ ind @ replicate gap CHR '' '') items
             @ [CHR 0x0A] @ ind @ r)"

text \<open>
  \<open>stringify gap ind v\<close>: the text of \<open>v\<close> at indentation \<open>ind\<close>, \<open>gap\<close> spaces a
  level; \<open>None\<close> is \<^verbatim>\<open>undefined\<close>, which an array prints as \<^verbatim>\<open>null\<close> and an
  object leaves out.
\<close>

fun stringify :: "nat \<Rightarrow> string \<Rightarrow> jsval \<Rightarrow> string option" where
  "stringify gap ind JUndefined = None"
| "stringify gap ind JNull = Some ''null''"
| "stringify gap ind (JBool b) = Some (if b then ''true'' else ''false'')"
| "stringify gap ind (JNum n) = Some (Number_toString n)"
| "stringify gap ind (JStr s) = Some (quote s)"
| "stringify gap ind (JArr xs) =
     Some (wrap gap ind ''['' '']''
       (map (\<lambda>x. case stringify gap (ind @ replicate gap CHR '' '') x of
                    None \<Rightarrow> ''null''
                  | Some t \<Rightarrow> t) xs))"
| "stringify gap ind (JObj fs) =
     Some (wrap gap ind ''{'' ''}''
       (concat (map (\<lambda>p. case stringify gap (ind @ replicate gap CHR '' '') (snd p) of
                            None \<Rightarrow> []
                          | Some t \<Rightarrow> [quote (fst p) @ (if gap = 0 then '':'' else '': '') @ t])
                  fs)))"

definition node_JSON_stringify :: "jsval \<Rightarrow> nat \<Rightarrow> jsval" where
  "node_JSON_stringify v gap =
     (case stringify (min gap 10) [] v of None \<Rightarrow> JUndefined | Some t \<Rightarrow> JStr t)"

definition node_TypeError_message :: "jsval \<Rightarrow> string \<Rightarrow> string" where
  "node_TypeError_message v k =
     ''Cannot read properties of '' @ ToString v @ '' (reading '' @ [CHR 0x27] @ k @ [CHR 0x27] @ '')''"

definition node :: js_runtime where
  "node =
     \<lparr>JSON_parse = node_JSON_parse,
      JSON_stringify = node_JSON_stringify,
      TypeError_message = node_TypeError_message\<rparr>"

section \<open>The collaborators of the service\<close>

text \<open>
  \<^verbatim>\<open>AiAssistantConfig\<close> (ai-assistant.config.ts): three strings, each \<^verbatim>\<open>''\<close> by
  default. Of the rest of \<^verbatim>\<open>GlobalConfig\<close> the service reads \<^verbatim>\<open>logging.level\<close>.
\<close>

record AiAssistantConfig =
  baseUrl :: string
  apiKey :: string
  model :: string

record GlobalConfig =
  aiAssistant :: AiAssistantConfig
  logging_level :: string

text \<open>\<^verbatim>\<open>process.env\<close>: a variable is a string, or \<^verbatim>\<open>undefined\<close> when it is not set.\<close>

record process_env =
  N8N_AI_ASSISTANT_BASE_URL :: "string option"
  N8N_AI_ASSISTANT_API_KEY :: "string option"
  N8N_AI_MODEL :: "string option"

text \<open>
  Modelled from the spec: the class \<^verbatim>\<open>License\<close> is imported from \<^verbatim>\<open>../license\<close> and
  is not among the sources. The service calls three of its methods, which the spec
  gives as \<^verbatim>\<open>isAiAssistantEnabled() -> bool\<close>, \<^verbatim>\<open>loadCertStr() -> string\<close> (may
  suspend on I/O) and \<^verbatim>\<open>getConsumerId() -> string\<close>; a licence is what they return.
\<close>

record License =
  isAiAssistantEnabled :: bool
  loadCertStr :: string
  getConsumerId :: string

text \<open>
  Everything \<^verbatim>\<open>AiService\<close> is constructed with or reads from its surroundings: the two
  injected services, \<^verbatim>\<open>process.env\<close>, the constant \<^verbatim>\<open>N8N_VERSION\<close> (from
  \<^verbatim>\<open>../constants\<close>) and the language runtime.
\<close>

record host =
  licenseService :: License
  globalConfig :: GlobalConfig
  env :: process_env
  N8N_VERSION :: string
  runtime :: js_runtime

text \<open>
  The two client handles. \<^verbatim>\<open>axios.create(config)\<close> and
  \<^verbatim>\<open>new AiAssistantClient(options)\<close> come from packages outside the repository; a
  handle is known by the object it was constructed from.
\<close>

datatype AxiosInstance = AxiosInstance jsval

datatype AiAssistantClient = AiAssistantClient jsval

text \<open>
  What the two backends answer to a call, one field per method the service calls:
  \<open>Inl\<close> is a rejected promise (the thrown error object), \<open>Inr\<close> the value it
  resolves with. \<^verbatim>\<open>post\<close> resolves with axios' response object, whose properties
  \<^verbatim>\<open>status\<close> and \<^verbatim>\<open>data\<close> the service reads.
\<close>

record backend =
  post :: "AxiosInstance \<Rightarrow> string \<Rightarrow> jsval \<Rightarrow> js_object + js_object"
  client_chat :: "AiAssistantClient \<Rightarrow> jsval \<Rightarrow> jsval \<Rightarrow> js_object + jsval"
  client_applySuggestion :: "AiAssistantClient \<Rightarrow> jsval \<Rightarrow> jsval \<Rightarrow> js_object + jsval"
  client_askAi :: "AiAssistantClient \<Rightarrow> jsval \<Rightarrow> jsval \<Rightarrow> js_object + jsval"
  client_generateAiCreditsCredentials :: "AiAssistantClient \<Rightarrow> jsval \<Rightarrow> js_object + jsval"

text \<open>
  The effects of the service on its surroundings, in the order they happen: console
  output (the arguments of the call; the pictograph that opens each message in the
  source is left out), the construction of a client, and the calls on a client.
\<close>

datatype event =
    Console_log "jsval list"
  | Console_error "jsval list"
  | Axios_create jsval
  | New_AiAssistantClient jsval
  | Post AxiosInstance string jsval
  | Client_call AiAssistantClient string "jsval list"

section \<open>The service\<close>

text \<open>The three private fields of \<^verbatim>\<open>AiService\<close>, and their values after the constructor.\<close>

record AiService =
  client :: "AiAssistantClient option"
  customHttpClient :: "AxiosInstance option"
  useCustomEndpoint :: bool

definition new_AiService :: AiService where
  "new_AiService = \<lparr>client = None, customHttpClient = None, useCustomEndpoint = False\<rparr>"

text \<open>What an operation does: the value it returns or the error it throws, the fields
  of the service afterwards, and its effects.\<close>

record outcome =
  returned :: "js_object + jsval"
  service :: AiService
  effects :: "event list"

subsection \<open>init\<close>

definition env_var :: "string option \<Rightarrow> jsval" where
  "env_var x = (case x of None \<Rightarrow> JUndefined | Some s \<Rightarrow> JStr s)"

text \<open>
  The local constants \<^verbatim>\<open>baseUrl\<close>, \<^verbatim>\<open>apiKey\<close> and \<^verbatim>\<open>model\<close> of \<^verbatim>\<open>init\<close> (lines
  39 to 41), which its log lines call the final values: the configuration's field, or
  else the environment variable.
\<close>

definition final_baseUrl :: "host \<Rightarrow> jsval" where
  "final_baseUrl h =
     js_or (JStr (baseUrl (aiAssistant (globalConfig h))))
           (env_var (N8N_AI_ASSISTANT_BASE_URL (env h)))"

definition final_apiKey :: "host \<Rightarrow> jsval" where
  "final_apiKey h =
     js_or (JStr (apiKey (aiAssistant (globalConfig h))))
           (env_var (N8N_AI_ASSISTANT_API_KEY (env h)))"

definition final_model :: "host \<Rightarrow> jsval" where
  "final_model h =
     js_or (JStr (model (aiAssistant (globalConfig h))))
           (env_var (N8N_AI_MODEL (env h)))"

definition config_object :: "AiAssistantConfig \<Rightarrow> jsval" where
  "config_object c =
     JObj [(''baseUrl'', JStr (baseUrl c)), (''apiKey'', JStr (apiKey c)),
           (''model'', JStr (model c))]"

text \<open>Lines 27 to 56: the console output of \<^verbatim>\<open>init\<close> before it branches.\<close>

definition init_console :: "host \<Rightarrow> event list" where
  "init_console h =
     [Console_log [JStr ''AI Service init() called''],
      Console_log [JStr ''AI Assistant enabled:'',
                   JBool (isAiAssistantEnabled (licenseService h))]]
     @ (if \<not> isAiAssistantEnabled (licenseService h)
        then [Console_log [JStr ''AI Assistant not enabled by license, but proceeding anyway for custom endpoint'']]
        else [])
     @ [Console_log [JStr ''AI Service init - baseUrl (config):'',
                     JStr (baseUrl (aiAssistant (globalConfig h)))],
        Console_log [JStr ''AI Service init - baseUrl (env):'',
                     env_var (N8N_AI_ASSISTANT_BASE_URL (env h))],
        Console_log [JStr ''AI Service init - baseUrl (final):'', final_baseUrl h],
        Console_log [JStr ''AI Service init - apiKey exists (config):'',
                     JBool (truthy (JStr (apiKey (aiAssistant (globalConfig h)))))],
        Console_log [JStr ''AI Service init - apiKey exists (env):'',
                     JBool (truthy (env_var (N8N_AI_ASSISTANT_API_KEY (env h))))],
        Console_log [JStr ''AI Service init - apiKey exists (final):'',
                     JBool (truthy (final_apiKey h))],
        Console_log [JStr ''AI Service init - model (final):'', final_model h],
        Console_log [JStr ''AI Service init - globalConfig.aiAssistant:'',
                     config_object (aiAssistant (globalConfig h))]]"

text \<open>Lines 63 to 72: the object given to \<^verbatim>\<open>axios.create\<close>.\<close>

definition axios_config :: "host \<Rightarrow> jsval" where
  "axios_config h =
     JObj [(''baseURL'', final_baseUrl h),
           (''headers'',
              JObj ([(''Authorization'', JStr (''Bearer '' @ ToString (final_apiKey h))),
                     (''Content-Type'', JStr ''application/json''),
                     (''User-Agent'', JStr (''n8n/'' @ N8N_VERSION h))]
                    @ spread (js_and (final_model h) (JObj [(''X-Model'', final_model h)])))),
           (''timeout'', JNum 30000)]"

text \<open>Lines 75 to 85: the object given to \<^verbatim>\<open>new AiAssistantClient\<close>.\<close>

definition client_options :: "host \<Rightarrow> jsval" where
  "client_options h =
     JObj [(''licenseCert'', JStr (loadCertStr (licenseService h))),
           (''consumerId'', JStr (getConsumerId (licenseService h))),
           (''n8nVersion'', JStr (N8N_VERSION h)),
           (''baseUrl'', js_or (final_baseUrl h) (JStr [])),
           (''logLevel'', JStr (logging_level (globalConfig h)))]"

definition init :: "host \<Rightarrow> AiService \<Rightarrow> AiService \<times> event list" where
  "init h s =
     (if truthy (js_and (final_baseUrl h) (final_apiKey h))
      then (s\<lparr>useCustomEndpoint := True,
              customHttpClient := Some (AxiosInstance (axios_config h))\<rparr>,
            init_console h
            @ [Console_log [JStr ''Configuring custom AI endpoint:'', final_baseUrl h],
               Console_log [JStr ''Using model:'', js_or (final_model h) (JStr ''Default'')],
               Axios_create (axios_config h)])
      else (s\<lparr>client := Some (AiAssistantClient (client_options h))\<rparr>,
            init_console h @ [New_AiAssistantClient (client_options h)]))"

subsection \<open>The direct endpoint\<close>

text \<open>
  The three operations that the direct endpoint serves share the shape of their
  request, the reading of the response and the \<^verbatim>\<open>catch\<close> block; the source writes
  each out three times (lines 100 to 143, 158 to 200, 215 to 257).
\<close>

definition request_model :: "host \<Rightarrow> jsval" where
  "request_model h =
     js_or (js_or (JStr (model (aiAssistant (globalConfig h)))) (env_var (N8N_AI_MODEL (env h))))
           (JStr ''gpt-3.5-turbo'')"

definition chat_message :: "string \<Rightarrow> jsval \<Rightarrow> jsval" where
  "chat_message role content = JObj [(''role'', JStr role), (''content'', content)]"

definition openAIPayload :: "host \<Rightarrow> jsval list \<Rightarrow> js_object \<Rightarrow> jsval" where
  "openAIPayload h msgs user =
     JObj [(''model'', request_model h),
           (''messages'', JArr msgs),
           (''stream'', JBool False),
           (''user'', obj_get user ''id'')]"

text \<open>The constant \<^verbatim>\<open>openAIPayload\<close> of each operation (lines 107, 165 and 222).\<close>

definition chat_openAIPayload :: "host \<Rightarrow> js_object \<Rightarrow> js_object \<Rightarrow> jsval" where
  "chat_openAIPayload h payload user =
     openAIPayload h
       [chat_message ''user'' (JSON_stringify (runtime h) (JObj payload) 0)] user"

definition applySuggestion_openAIPayload :: "host \<Rightarrow> js_object \<Rightarrow> js_object \<Rightarrow> jsval" where
  "applySuggestion_openAIPayload h payload user =
     openAIPayload h
       [chat_message ''system''
          (JStr ''You are an AI assistant helping to apply code suggestions in n8n workflows. Apply the requested suggestion and return the updated parameters.''),
        chat_message ''user''
          (JStr (''Apply suggestion: ''
                 @ ToString (JSON_stringify (runtime h) (JObj payload) 0)))]
       user"

definition askAi_openAIPayload :: "host \<Rightarrow> js_object \<Rightarrow> js_object \<Rightarrow> jsval" where
  "askAi_openAIPayload h payload user =
     openAIPayload h
       [chat_message ''system''
          (JStr ''You are an AI assistant helping with n8n workflow automation. Answer the user's question about their workflow or code.''),
        chat_message ''user''
          (JStr (''Question: '' @ ToString (obj_get payload ''question'')
                 @ [CHR 0x0A, CHR 0x0A] @ ''Context: ''
                 @ ToString (JSON_stringify (runtime h) (obj_get payload ''context'') 2)
                 @ [CHR 0x0A, CHR 0x0A] @ ''For node: ''
                 @ ToString (obj_get payload ''forNode'')))]
       user"

definition sending_request :: "host \<Rightarrow> event" where
  "sending_request h =
     Console_log [JStr ''Sending request to custom AI endpoint:'',
                  JStr (baseUrl (aiAssistant (globalConfig h)) @ ''/v1/chat/completions'')]"

text \<open>\<^verbatim>\<open>aiResponse.choices?.[0]?.message?.content\<close>: the first read is not optional.\<close>

definition first_choice_content :: "js_runtime \<Rightarrow> jsval \<Rightarrow> js_object + jsval" where
  "first_choice_content rt aiResponse =
     (case read_property rt aiResponse ''choices'' of
        Inl e \<Rightarrow> Inl e
      | Inr choices \<Rightarrow> Inr (opt_get (opt_get (opt_index choices 0) ''message'') ''content''))"

text \<open>The \<^verbatim>\<open>catch\<close> block: what it prints and the error it throws.\<close>

definition error_status :: "js_object \<Rightarrow> jsval" where
  "error_status error = opt_get (obj_get error ''response'') ''status''"

definition error_data :: "js_object \<Rightarrow> jsval" where
  "error_data error = opt_get (obj_get error ''response'') ''data''"

definition custom_error :: "js_object \<Rightarrow> js_object" where
  "custom_error error =
     new_Error (''Custom AI service error: ''
                @ ToString (js_or (error_status error) (JStr ''Unknown''))
                @ '' - ''
                @ ToString (js_or (opt_get (error_data error) ''message'') (obj_get error ''message'')))"

definition catch_error :: "js_object \<Rightarrow> event list \<Rightarrow> (js_object + jsval) \<times> event list" where
  "catch_error error done =
     (Inl (custom_error error),
      done @ [Console_error [JStr ''Custom AI endpoint error:'', error_status error,
                             js_or (error_data error) (obj_get error ''message'')]])"

text \<open>
  The \<^verbatim>\<open>try\<close> block: post the payload, print the status, read the content of the
  first choice and hand it to \<open>respond\<close>, the object literal that the operation
  returns. Whatever is thrown on the way goes to the \<^verbatim>\<open>catch\<close> block.
\<close>

definition via_endpoint ::
  "host \<Rightarrow> backend \<Rightarrow> AxiosInstance \<Rightarrow> jsval \<Rightarrow> (jsval \<Rightarrow> js_object + jsval)
     \<Rightarrow> (js_object + jsval) \<times> event list" where
  "via_endpoint h be http payload respond =
     (case post be http ''/v1/chat/completions'' payload of
        Inl error \<Rightarrow>
          catch_error error [sending_request h, Post http ''/v1/chat/completions'' payload]
      | Inr response \<Rightarrow>
          (case first_choice_content (runtime h) (obj_get response ''data'') of
             Inl error \<Rightarrow>
               catch_error error
                 [sending_request h, Post http ''/v1/chat/completions'' payload,
                  Console_log [JStr ''Custom AI endpoint response status:'',
                               obj_get response ''status'']]
           | Inr content \<Rightarrow>
               (case respond content of
                  Inl error \<Rightarrow>
                    catch_error error
                      [sending_request h, Post http ''/v1/chat/completions'' payload,
                       Console_log [JStr ''Custom AI endpoint response status:'',
                                    obj_get response ''status'']]
                | Inr result \<Rightarrow>
                    (Inr result,
                     [sending_request h, Post http ''/v1/chat/completions'' payload,
                      Console_log [JStr ''Custom AI endpoint response status:'',
                                   obj_get response ''status'']]))))"

text \<open>
  Modelled from the spec: \<^verbatim>\<open>assert\<close> is imported from \<^verbatim>\<open>n8n-workflow\<close> and is not
  among the sources; a failed assertion is an assertion-style error with the message
  given. \<open>via_client\<close> is the last two lines of an operation: the assertion and the
  call on the vendor client, whose answer is returned as it is.
\<close>

definition via_client ::
  "AiService \<Rightarrow> string \<Rightarrow> jsval list \<Rightarrow> (AiAssistantClient \<Rightarrow> js_object + jsval)
     \<Rightarrow> (js_object + jsval) \<times> event list" where
  "via_client s method args call =
     (case client s of
        None \<Rightarrow> (Inl (new_Error ''Assistant client not setup''), [])
      | Some c \<Rightarrow> (call c, [Client_call c method args]))"

text \<open>The guard that opens \<^verbatim>\<open>chat\<close>, \<^verbatim>\<open>applySuggestion\<close> and \<^verbatim>\<open>askAi\<close> (lines 90
  to 92, 152 to 154, 209 to 211).\<close>

definition ensureInitialized :: "host \<Rightarrow> AiService \<Rightarrow> AiService \<times> event list" where
  "ensureInitialized h s =
     (if client s = None \<and> customHttpClient s = None then init h s else (s, []))"

text \<open>\<^verbatim>\<open>this.useCustomEndpoint && this.customHttpClient\<close>: the handle, if the test holds.\<close>

definition custom_endpoint :: "AiService \<Rightarrow> AxiosInstance option" where
  "custom_endpoint s = (if useCustomEndpoint s then customHttpClient s else None)"

subsection \<open>The four operations\<close>

definition chat :: "host \<Rightarrow> backend \<Rightarrow> js_object \<Rightarrow> js_object \<Rightarrow> AiService \<Rightarrow> outcome" where
  "chat h be payload user s =
     (let (s1, t1) = ensureInitialized h s;
          t2 = [Console_log [JStr ''AI Service chat called - useCustomEndpoint:'',
                             JBool (useCustomEndpoint s1)],
                Console_log [JStr ''customHttpClient exists:'',
                             JBool (customHttpClient s1 \<noteq> None)],
                Console_log [JStr ''client exists:'', JBool (client s1 \<noteq> None)]];
          (r, t3) =
            (case custom_endpoint s1 of
               Some http \<Rightarrow>
                 via_endpoint h be http (chat_openAIPayload h payload user)
                   (\<lambda>content.
                      Inr (JObj [(''sessionId'', obj_get payload ''sessionId''),
                                 (''messages'',
                                    JArr [JObj [(''role'', JStr ''assistant''),
                                                (''type'', JStr ''message''),
                                                (''text'', js_or content
                                                   (JStr ''No response from AI service''))]])]))
             | None \<Rightarrow>
                 via_client s1 ''chat'' [JObj payload, JObj [(''id'', obj_get user ''id'')]]
                   (\<lambda>c. client_chat be c (JObj payload) (JObj [(''id'', obj_get user ''id'')])))
      in \<lparr>returned = r, service = s1, effects = t1 @ t2 @ t3\<rparr>)"

definition applySuggestion ::
  "host \<Rightarrow> backend \<Rightarrow> js_object \<Rightarrow> js_object \<Rightarrow> AiService \<Rightarrow> outcome" where
  "applySuggestion h be payload user s =
     (let (s1, t1) = ensureInitialized h s;
          (r, t3) =
            (case custom_endpoint s1 of
               Some http \<Rightarrow>
                 via_endpoint h be http (applySuggestion_openAIPayload h payload user)
                   (\<lambda>content.
                      case JSON_parse (runtime h) (ToString (js_or content (JStr ''{}''))) of
                        Inl error \<Rightarrow> Inl error
                      | Inr parameters \<Rightarrow>
                          Inr (JObj [(''sessionId'', obj_get payload ''sessionId''),
                                     (''parameters'', parameters)]))
             | None \<Rightarrow>
                 via_client s1 ''applySuggestion''
                   [JObj payload, JObj [(''id'', obj_get user ''id'')]]
                   (\<lambda>c. client_applySuggestion be c (JObj payload)
                          (JObj [(''id'', obj_get user ''id'')])))
      in \<lparr>returned = r, service = s1, effects = t1 @ t3\<rparr>)"

definition askAi :: "host \<Rightarrow> backend \<Rightarrow> js_object \<Rightarrow> js_object \<Rightarrow> AiService \<Rightarrow> outcome" where
  "askAi h be payload user s =
     (let (s1, t1) = ensureInitialized h s;
          (r, t3) =
            (case custom_endpoint s1 of
               Some http \<Rightarrow>
                 via_endpoint h be http (askAi_openAIPayload h payload user)
                   (\<lambda>content.
                      Inr (JObj [(''answer'', js_or content (JStr ''No response from AI service'')),
                                 (''code'', JStr [])]))
             | None \<Rightarrow>
                 via_client s1 ''askAi'' [JObj payload, JObj [(''id'', obj_get user ''id'')]]
                   (\<lambda>c. client_askAi be c (JObj payload) (JObj [(''id'', obj_get user ''id'')])))
      in \<lparr>returned = r, service = s1, effects = t1 @ t3\<rparr>)"

definition createFreeAiCredits :: "host \<Rightarrow> backend \<Rightarrow> js_object \<Rightarrow> AiService \<Rightarrow> outcome" where
  "createFreeAiCredits h be user s =
     (let (s1, t1) = (if client s = None then init h s else (s, []));
          (r, t3) =
            via_client s1 ''generateAiCreditsCredentials'' [JObj user]
              (\<lambda>c. client_generateAiCreditsCredentials be c (JObj user))
      in \<lparr>returned = r, service = s1, effects = t1 @ t3\<rparr>)"

section \<open>Modes, call sequences and sample inputs\<close>

text \<open>
  The spec's two backend modes, read off the fields the way every operation
  dispatches: the direct endpoint when \<^verbatim>\<open>useCustomEndpoint && customHttpClient\<close> holds,
  otherwise the vendor client when there is one.
\<close>

datatype BackendMode = VendorManaged | DirectEndpoint

definition mode :: "AiService \<Rightarrow> BackendMode option" where
  "mode s =
     (if custom_endpoint s \<noteq> None then Some DirectEndpoint
      else if client s \<noteq> None then Some VendorManaged
      else None)"

text \<open>The test of \<^verbatim>\<open>init\<close>, line 59: \<^verbatim>\<open>baseUrl && apiKey\<close>.\<close>

definition endpoint_configured :: "host \<Rightarrow> bool" where
  "endpoint_configured h = (truthy (final_baseUrl h) \<and> truthy (final_apiKey h))"

definition at_most_one :: "AiService \<Rightarrow> bool" where
  "at_most_one s = (client s = None \<or> customHttpClient s = None)"

text \<open>A state that a service can be in under the configuration of \<open>h\<close>: at most one
  handle, and the HTTP client only if \<open>h\<close> configures the endpoint.\<close>

definition consistent :: "host \<Rightarrow> AiService \<Rightarrow> bool" where
  "consistent h s =
     (at_most_one s \<and> (customHttpClient s = None \<or> endpoint_configured h))"

fun is_construction :: "event \<Rightarrow> bool" where
  "is_construction (Axios_create c) = True"
| "is_construction (New_AiAssistantClient c) = True"
| "is_construction e = False"

definition constructions :: "event list \<Rightarrow> nat" where
  "constructions t = length (filter is_construction t)"

fun is_request :: "event \<Rightarrow> bool" where
  "is_request (Post c p b) = True"
| "is_request (Client_call c m as) = True"
| "is_request e = False"

text \<open>A call of one of the four public methods, with its arguments.\<close>

datatype call =
    Chat js_object js_object
  | ApplySuggestion js_object js_object
  | AskAi js_object js_object
  | CreateFreeAiCredits js_object

fun invoke :: "host \<Rightarrow> backend \<Rightarrow> call \<Rightarrow> AiService \<Rightarrow> outcome" where
  "invoke h be (Chat payload user) s = chat h be payload user s"
| "invoke h be (ApplySuggestion payload user) s = applySuggestion h be payload user s"
| "invoke h be (AskAi payload user) s = askAi h be payload user s"
| "invoke h be (CreateFreeAiCredits user) s = createFreeAiCredits h be user s"

fun is_credits :: "call \<Rightarrow> bool" where
  "is_credits (CreateFreeAiCredits user) = True"
| "is_credits c = False"

text \<open>The test under which a call runs \<^verbatim>\<open>init\<close> first: line 266 for
  \<^verbatim>\<open>createFreeAiCredits\<close>, lines 90, 152 and 209 for the other three.\<close>

definition runs_init :: "call \<Rightarrow> AiService \<Rightarrow> bool" where
  "runs_init c s =
     (if is_credits c then client s = None
      else client s = None \<and> customHttpClient s = None)"

text \<open>The states a service goes through in a sequence of calls, each with the answers
  of the backends at that time: the state before, then the state after each call.\<close>

fun history :: "host \<Rightarrow> (backend \<times> call) list \<Rightarrow> AiService \<Rightarrow> AiService list" where
  "history h [] s = [s]"
| "history h (bc # cs) s = s # history h cs (service (invoke h (fst bc) (snd bc) s))"

text \<open>The default headers of an axios instance: the \<^verbatim>\<open>headers\<close> it was created with.\<close>

fun default_headers :: "AxiosInstance \<Rightarrow> js_object" where
  "default_headers (AxiosInstance config) = spread (js_get config ''headers'')"

text \<open>Sample inputs: a host whose configuration names an endpoint (the key comes from
  the environment), a host that names none, a user, a chat payload, and backends.\<close>

definition direct_host :: host where
  "direct_host =
     \<lparr>licenseService =
        \<lparr>isAiAssistantEnabled = False, loadCertStr = ''cert'', getConsumerId = ''consumer''\<rparr>,
      globalConfig =
        \<lparr>aiAssistant = \<lparr>baseUrl = ''http://localhost:11434'', apiKey = [], model = []\<rparr>,
         logging_level = ''info''\<rparr>,
      env =
        \<lparr>N8N_AI_ASSISTANT_BASE_URL = None, N8N_AI_ASSISTANT_API_KEY = Some ''sk-1'',
         N8N_AI_MODEL = Some ''llama3''\<rparr>,
      N8N_VERSION = ''1.90.0'',
      runtime = node\<rparr>"

definition vendor_host :: host where
  "vendor_host =
     \<lparr>licenseService =
        \<lparr>isAiAssistantEnabled = True, loadCertStr = ''cert'', getConsumerId = ''consumer''\<rparr>,
      globalConfig =
        \<lparr>aiAssistant = \<lparr>baseUrl = ''https://ai-assistant.example'', apiKey = [], model = []\<rparr>,
         logging_level = ''info''\<rparr>,
      env =
        \<lparr>N8N_AI_ASSISTANT_BASE_URL = None, N8N_AI_ASSISTANT_API_KEY = None,
         N8N_AI_MODEL = None\<rparr>,
      N8N_VERSION = ''1.90.0'',
      runtime = node\<rparr>"

text \<open>The host with an endpoint, but with no model in the configuration or the
  environment.\<close>

definition direct_host_no_model :: host where
  "direct_host_no_model =
     direct_host\<lparr>env := (env direct_host)\<lparr>N8N_AI_MODEL := None\<rparr>\<rparr>"

definition alice :: js_object where
  "alice = [(''id'', JStr ''u1''), (''email'', JStr ''alice@example.com'')]"

definition hello :: js_object where
  "hello = [(''payload'', JObj [(''text'', JStr ''hello'')]), (''sessionId'', JStr ''s1'')]"

text \<open>An axios response with status 200 whose first choice has the content \<open>c\<close>.\<close>

definition completion :: "jsval \<Rightarrow> js_object" where
  "completion c =
     [(''status'', JNum 200),
      (''data'', JObj [(''choices'', JArr [JObj [(''message'', JObj [(''content'', c)])]])])]"

text \<open>An axios error for a response with status 500 and body \<^verbatim>\<open>{message: "boom"}\<close>.\<close>

definition boom :: js_object where
  "boom =
     [(''message'', JStr ''Request failed with status code 500''),
      (''response'', JObj [(''status'', JNum 500), (''data'', JObj [(''message'', JStr ''boom'')])])]"

text \<open>A backend whose endpoint answers every post with \<open>answer\<close> and whose vendor
  client answers every call with the arguments it was given.\<close>

definition echo_backend :: "js_object + js_object \<Rightarrow> backend" where
  "echo_backend answer =
     \<lparr>post = (\<lambda>c path body. answer),
      client_chat = (\<lambda>c payload user. Inr (JArr [payload, user])),
      client_applySuggestion = (\<lambda>c payload user. Inr (JArr [payload, user])),
      client_askAi = (\<lambda>c payload user. Inr (JArr [payload, user])),
      client_generateAiCreditsCredentials = (\<lambda>c user. Inr (JArr [user]))\<rparr>"

definition suggestion :: js_object where
  "suggestion = [(''sessionId'', JStr ''s1''), (''suggestionId'', JStr ''g1'')]"

definition question :: js_object where
  "question =
     [(''question'', JStr ''Why does it fail?''),
      (''context'', JObj [(''schema'', JArr [])]),
      (''forNode'', JStr ''code'')]"

text \<open>The sample hosts' services after \<^verbatim>\<open>init\<close>.\<close>

definition direct_service :: AiService where
  "direct_service =
     \<lparr>client = None,
      customHttpClient = Some (AxiosInstance (axios_config direct_host)),
      useCustomEndpoint = True\<rparr>"

definition vendor_service :: AiService where
  "vendor_service =
     \<lparr>client = Some (AiAssistantClient (client_options vendor_host)),
      customHttpClient = None,
      useCustomEndpoint = False\<rparr>"

text \<open>The host \<open>h\<close> with the answer of \<^verbatim>\<open>isAiAssistantEnabled()\<close> set to \<open>b\<close>.\<close>

definition entitled :: "bool \<Rightarrow> host \<Rightarrow> host" where
  "entitled b h = h\<lparr>licenseService := (licenseService h)\<lparr>isAiAssistantEnabled := b\<rparr>\<rparr>"

section \<open>Basic facts\<close>

lemma obj_get_Nil: "obj_get [] k = JUndefined"
  by (simp add: obj_get_def)

lemma obj_get_Cons: "obj_get ((k', v) # fs) k = (if k' = k then v else obj_get fs k)"
  by (simp add: obj_get_def)

lemma truthy_js_and: "truthy (js_and a b) = (truthy a \<and> truthy b)"
  by (simp add: js_and_def)

lemma truthy_js_or: "truthy (js_or a b) = (truthy a \<or> truthy b)"
  by (simp add: js_or_def)

lemma truthy_env_var: "truthy (env_var x) = (\<exists>v. x = Some v \<and> v \<noteq> [])"
  by (cases x) (simp_all add: env_var_def)

text \<open>The two-tier lookup: a final value is non-empty exactly when the configuration's
  field is, or else the environment variable is set and non-empty.\<close>

lemma truthy_final_baseUrl:
  "truthy (final_baseUrl h) =
     (baseUrl (aiAssistant (globalConfig h)) \<noteq> []
      \<or> (\<exists>v. N8N_AI_ASSISTANT_BASE_URL (env h) = Some v \<and> v \<noteq> []))"
  by (simp add: final_baseUrl_def truthy_js_or truthy_env_var)

lemma truthy_final_apiKey:
  "truthy (final_apiKey h) =
     (apiKey (aiAssistant (globalConfig h)) \<noteq> []
      \<or> (\<exists>v. N8N_AI_ASSISTANT_API_KEY (env h) = Some v \<and> v \<noteq> []))"
  by (simp add: final_apiKey_def truthy_js_or truthy_env_var)

lemma truthy_final_model:
  "truthy (final_model h) =
     (model (aiAssistant (globalConfig h)) \<noteq> []
      \<or> (\<exists>v. N8N_AI_MODEL (env h) = Some v \<and> v \<noteq> []))"
  by (simp add: final_model_def truthy_js_or truthy_env_var)

subsection \<open>init and the guard\<close>

lemma constructed_init_console: "filter is_construction (init_console h) = []"
  by (simp add: init_console_def)

lemma fst_init:
  "fst (init h s) =
     (if endpoint_configured h
      then s\<lparr>useCustomEndpoint := True,
             customHttpClient := Some (AxiosInstance (axios_config h))\<rparr>
      else s\<lparr>client := Some (AiAssistantClient (client_options h))\<rparr>)"
  by (simp add: init_def endpoint_configured_def truthy_js_and)

lemma constructed_init:
  "filter is_construction (snd (init h s)) =
     [if endpoint_configured h then Axios_create (axios_config h)
      else New_AiAssistantClient (client_options h)]"
  by (simp add: init_def endpoint_configured_def truthy_js_and constructed_init_console)

lemma requests_init: "filter is_request (snd (init h s)) = []"
  by (simp add: init_def init_console_def)

lemma fst_ensureInitialized:
  "fst (ensureInitialized h s) =
     (if client s = None \<and> customHttpClient s = None then fst (init h s) else s)"
  by (simp add: ensureInitialized_def)

lemma snd_ensureInitialized:
  "snd (ensureInitialized h s) =
     (if client s = None \<and> customHttpClient s = None then snd (init h s) else [])"
  by (simp add: ensureInitialized_def)

subsection \<open>The two ways to serve a call\<close>

lemma constructed_catch_error:
  "filter is_construction (snd (catch_error e t)) = filter is_construction t"
  by (simp add: catch_error_def)

lemma constructed_via_endpoint:
  "filter is_construction (snd (via_endpoint h be http p respond)) = []"
  by (simp add: via_endpoint_def sending_request_def constructed_catch_error split: sum.splits)

lemma constructed_via_client: "filter is_construction (snd (via_client s m as call)) = []"
  by (simp add: via_client_def split: option.splits)

lemma via_endpoint_rejected:
  "post be http ''/v1/chat/completions'' p = Inl e \<Longrightarrow>
   fst (via_endpoint h be http p respond) = Inl (custom_error e)"
  by (simp add: via_endpoint_def catch_error_def)

lemma via_endpoint_resolved:
  "post be http ''/v1/chat/completions'' p = Inr response \<Longrightarrow>
   first_choice_content (runtime h) (obj_get response ''data'') = Inr content \<Longrightarrow>
   fst (via_endpoint h be http p respond) =
     (case respond content of Inl e \<Rightarrow> Inl (custom_error e) | Inr result \<Rightarrow> Inr result)"
  by (simp add: via_endpoint_def catch_error_def split: sum.splits)

lemma via_endpoint_unreadable:
  "post be http ''/v1/chat/completions'' p = Inr response \<Longrightarrow>
   first_choice_content (runtime h) (obj_get response ''data'') = Inl e \<Longrightarrow>
   fst (via_endpoint h be http p respond) = Inl (custom_error e)"
  by (simp add: via_endpoint_def catch_error_def split: sum.splits)

lemma first_choice_content_object:
  "first_choice_content rt (JObj d) =
     Inr (opt_get (opt_get (opt_index (obj_get d ''choices'') 0) ''message'') ''content'')"
  by (simp add: first_choice_content_def read_property_def)

lemma first_choice_content_defined:
  "\<not> nullish v \<Longrightarrow>
   first_choice_content rt v =
     Inr (opt_get (opt_get (opt_index (js_get v ''choices'') 0) ''message'') ''content'')"
  by (simp add: first_choice_content_def read_property_def)

lemma first_choice_content_nullish:
  "nullish v \<Longrightarrow>
   first_choice_content rt v = Inl (new_Error (TypeError_message rt v ''choices''))"
  by (simp add: first_choice_content_def read_property_def)

lemma content_present:
  "obj_get f ''message'' = JObj m \<Longrightarrow>
   opt_get (opt_get (opt_index (JArr (JObj f # cs)) 0) ''message'') ''content''
     = obj_get m ''content''"
  by (simp add: opt_get_def opt_index_def)

lemma content_absent:
  "opt_get (opt_get (opt_index JUndefined 0) ''message'') ''content'' = JUndefined"
  "opt_get (opt_get (opt_index (JArr []) 0) ''message'') ''content'' = JUndefined"
  by (simp_all add: opt_get_def opt_index_def)

subsection \<open>The operations: state, constructions, returned value\<close>

lemma service_chat: "service (chat h be payload user s) = fst (ensureInitialized h s)"
  by (simp add: chat_def split: prod.splits)

lemma service_applySuggestion:
  "service (applySuggestion h be payload user s) = fst (ensureInitialized h s)"
  by (simp add: applySuggestion_def split: prod.splits)

lemma service_askAi: "service (askAi h be payload user s) = fst (ensureInitialized h s)"
  by (simp add: askAi_def split: prod.splits)

lemma service_createFreeAiCredits:
  "service (createFreeAiCredits h be user s) = (if client s = None then fst (init h s) else s)"
  by (simp add: createFreeAiCredits_def split: prod.splits)

lemma constructed_chat:
  "filter is_construction (effects (chat h be payload user s)) =
     filter is_construction (snd (ensureInitialized h s))"
  by (simp add: chat_def case_prod_beta constructed_via_endpoint constructed_via_client
           split: option.splits)

lemma constructed_applySuggestion:
  "filter is_construction (effects (applySuggestion h be payload user s)) =
     filter is_construction (snd (ensureInitialized h s))"
  by (simp add: applySuggestion_def case_prod_beta constructed_via_endpoint
                constructed_via_client
           split: option.splits)

lemma constructed_askAi:
  "filter is_construction (effects (askAi h be payload user s)) =
     filter is_construction (snd (ensureInitialized h s))"
  by (simp add: askAi_def case_prod_beta constructed_via_endpoint constructed_via_client
           split: option.splits)

lemma constructed_createFreeAiCredits:
  "filter is_construction (effects (createFreeAiCredits h be user s)) =
     (if client s = None then filter is_construction (snd (init h s)) else [])"
  by (simp add: createFreeAiCredits_def case_prod_beta constructed_via_client)

lemma returned_chat:
  "returned (chat h be payload user s) =
     fst (case custom_endpoint (fst (ensureInitialized h s)) of
            Some http \<Rightarrow>
              via_endpoint h be http (chat_openAIPayload h payload user)
                (\<lambda>content.
                   Inr (JObj [(''sessionId'', obj_get payload ''sessionId''),
                              (''messages'',
                                 JArr [JObj [(''role'', JStr ''assistant''),
                                             (''type'', JStr ''message''),
                                             (''text'', js_or content
                                                (JStr ''No response from AI service''))]])]))
          | None \<Rightarrow>
              via_client (fst (ensureInitialized h s)) ''chat''
                [JObj payload, JObj [(''id'', obj_get user ''id'')]]
                (\<lambda>c. client_chat be c (JObj payload) (JObj [(''id'', obj_get user ''id'')])))"
  by (simp add: chat_def case_prod_beta)

lemma returned_applySuggestion:
  "returned (applySuggestion h be payload user s) =
     fst (case custom_endpoint (fst (ensureInitialized h s)) of
            Some http \<Rightarrow>
              via_endpoint h be http (applySuggestion_openAIPayload h payload user)
                (\<lambda>content.
                   case JSON_parse (runtime h) (ToString (js_or content (JStr ''{}''))) of
                     Inl error \<Rightarrow> Inl error
                   | Inr parameters \<Rightarrow>
                       Inr (JObj [(''sessionId'', obj_get payload ''sessionId''),
                                  (''parameters'', parameters)]))
          | None \<Rightarrow>
              via_client (fst (ensureInitialized h s)) ''applySuggestion''
                [JObj payload, JObj [(''id'', obj_get user ''id'')]]
                (\<lambda>c. client_applySuggestion be c (JObj payload)
                       (JObj [(''id'', obj_get user ''id'')])))"
  by (simp add: applySuggestion_def case_prod_beta)

lemma returned_askAi:
  "returned (askAi h be payload user s) =
     fst (case custom_endpoint (fst (ensureInitialized h s)) of
            Some http \<Rightarrow>
              via_endpoint h be http (askAi_openAIPayload h payload user)
                (\<lambda>content.
                   Inr (JObj [(''answer'', js_or content (JStr ''No response from AI service'')),
                              (''code'', JStr [])]))
          | None \<Rightarrow>
              via_client (fst (ensureInitialized h s)) ''askAi''
                [JObj payload, JObj [(''id'', obj_get user ''id'')]]
                (\<lambda>c. client_askAi be c (JObj payload) (JObj [(''id'', obj_get user ''id'')])))"
  by (simp add: askAi_def case_prod_beta)

lemma custom_error_new_Error:
  "custom_error (new_Error msg) = new_Error (''Custom AI service error: Unknown - '' @ msg)"
  by (simp add: custom_error_def new_Error_def error_status_def error_data_def obj_get_Cons
                obj_get_Nil opt_get_def js_or_def)

lemma custom_error_boom:
  "obj_get error ''response'' = JObj r \<Longrightarrow> obj_get r ''status'' = JNum 500 \<Longrightarrow>
   obj_get r ''data'' = JObj [(''message'', JStr ''boom'')] \<Longrightarrow>
   custom_error error = new_Error ''Custom AI service error: 500 - boom''"
  by (simp add: custom_error_def error_status_def error_data_def opt_get_def js_or_def
                obj_get_Cons Number_toString_def)

text \<open>The fresh service of the sample host with an endpoint serves its first call
  over that endpoint.\<close>

lemma direct_host_serves:
  "custom_endpoint (fst (ensureInitialized direct_host new_AiService))
     = Some (AxiosInstance (axios_config direct_host))"
  by code_simp

subsection \<open>Requests, entitlement, call sequences\<close>

lemma requests_catch_error: "filter is_request (snd (catch_error e t)) = filter is_request t"
  by (simp add: catch_error_def)

lemma requests_via_endpoint:
  "filter is_request (snd (via_endpoint h be http p respond)) =
     [Post http ''/v1/chat/completions'' p]"
  by (simp add: via_endpoint_def sending_request_def requests_catch_error split: sum.splits)

lemma mode_VendorManaged:
  "(mode s = Some VendorManaged) = (custom_endpoint s = None \<and> client s \<noteq> None)"
  by (simp add: mode_def)

lemma mode_DirectEndpoint: "(mode s = Some DirectEndpoint) = (custom_endpoint s \<noteq> None)"
  by (simp add: mode_def)

lemma vendor_guard:
  "client s = Some c \<Longrightarrow> ensureInitialized h s = (s, [])"
  by (simp add: ensureInitialized_def)

lemma X_Model_header:
  "map_of (default_headers (AxiosInstance (axios_config h))) ''X-Model'' =
     (if truthy (final_model h) then Some (final_model h) else None)"
  by (cases "final_model h") (simp_all add: axios_config_def obj_get_Cons js_and_def)

lemma endpoint_configured_entitled: "endpoint_configured (entitled b h) = endpoint_configured h"
  by (simp add: entitled_def endpoint_configured_def final_baseUrl_def final_apiKey_def)

lemma axios_config_entitled: "axios_config (entitled b h) = axios_config h"
  by (simp add: entitled_def axios_config_def final_baseUrl_def final_apiKey_def final_model_def)

lemma client_options_entitled: "client_options (entitled b h) = client_options h"
  by (simp add: entitled_def client_options_def final_baseUrl_def)

lemma service_invoke:
  "service (invoke h be c s) = (if runs_init c s then fst (init h s) else s)"
  by (cases c)
     (simp_all add: runs_init_def service_chat service_applySuggestion service_askAi
                    service_createFreeAiCredits fst_ensureInitialized)

lemma constructions_init: "constructions (snd (init h s)) = 1"
  by (simp add: constructions_def constructed_init)

lemma constructions_invoke:
  "constructions (effects (invoke h be c s)) = (if runs_init c s then 1 else 0)"
  by (cases c)
     (simp_all add: runs_init_def constructions_def constructed_chat constructed_applySuggestion
                    constructed_askAi constructed_createFreeAiCredits snd_ensureInitialized
                    constructed_init)

lemma constructions_append: "constructions (t @ u) = constructions t + constructions u"
  by (simp add: constructions_def)

lemma runs_init_after_init:
  "runs_init c (fst (init h s)) = (is_credits c \<and> endpoint_configured h \<and> client s = None)"
  by (simp add: runs_init_def fst_init)

lemma consistent_init: "consistent h s \<Longrightarrow> runs_init c s \<Longrightarrow> consistent h (fst (init h s))"
  by (auto simp add: consistent_def at_most_one_def fst_init runs_init_def split: if_splits)

lemma consistent_invoke: "consistent h s \<Longrightarrow> consistent h (service (invoke h be c s))"
  by (simp add: service_invoke consistent_init)

lemma consistent_history:
  "consistent h s \<Longrightarrow> \<forall>s' \<in> set (history h calls s). consistent h s'"
proof (induction calls arbitrary: s)
  case Nil
  then show ?case by simp
next
  case (Cons bc calls)
  from Cons.prems have "consistent h (service (invoke h (fst bc) (snd bc) s))"
    by (rule consistent_invoke)
  then have "\<forall>s' \<in> set (history h calls (service (invoke h (fst bc) (snd bc) s))). consistent h s'"
    by (rule Cons.IH)
  with Cons.prems show ?case by simp
qed

lemma at_most_one_history:
  assumes "consistent h s" and "s' \<in> set (history h calls s)"
  shows "at_most_one s'"
proof -
  from assms have "consistent h s'"
    using consistent_history [of h s calls] by blast
  then show ?thesis
    by (simp add: consistent_def)
qed

lemma consistent_new_AiService: "consistent h new_AiService"
  by (simp add: consistent_def at_most_one_def new_AiService_def)

lemma direct_host_configured: "endpoint_configured direct_host"
  by code_simp

lemma vendor_host_not_configured: "\<not> endpoint_configured vendor_host"
  by code_simp

lemma init_direct_service: "fst (init direct_host s) = s\<lparr>useCustomEndpoint := True,
    customHttpClient := Some (AxiosInstance (axios_config direct_host))\<rparr>"
  by (simp add: fst_init direct_host_configured)

lemma init_vendor_service:
  "fst (init vendor_host s) = s\<lparr>client := Some (AiAssistantClient (client_options vendor_host))\<rparr>"
  by (simp add: fst_init vendor_host_not_configured)

section \<open>Backend selection\<close>

text \<open>
  Claim C1. Whenever the final \<^verbatim>\<open>baseUrl\<close> and the final \<^verbatim>\<open>apiKey\<close> are both
  non-empty, \<^verbatim>\<open>init\<close> sets the flag \<^verbatim>\<open>useCustomEndpoint\<close>, constructs the HTTP client
  (its one construction) and leaves the service in DirectEndpoint mode. Whenever one of
  the two is empty or undefined after the lookup in the configuration and then the
  environment, \<^verbatim>\<open>init\<close> constructs the vendor \<^verbatim>\<open>AiAssistantClient\<close> (its one
  construction) and touches no other field; a service that was not serving over the
  endpoint before, the fresh one above all, is in VendorManaged mode afterwards. A
  final value is non-empty exactly when the configuration's field is non-empty, or
  else the environment variable is set and non-empty.
\<close>

theorem init_selects_mode:
  "(truthy (final_baseUrl h) \<and> truthy (final_apiKey h) \<longrightarrow>
      fst (init h s) =
        s\<lparr>useCustomEndpoint := True,
          customHttpClient := Some (AxiosInstance (axios_config h))\<rparr>
      \<and> filter is_construction (snd (init h s)) = [Axios_create (axios_config h)]
      \<and> mode (fst (init h s)) = Some DirectEndpoint)
   \<and> (\<not> (truthy (final_baseUrl h) \<and> truthy (final_apiKey h)) \<longrightarrow>
      fst (init h s) = s\<lparr>client := Some (AiAssistantClient (client_options h))\<rparr>
      \<and> filter is_construction (snd (init h s)) = [New_AiAssistantClient (client_options h)]
      \<and> (custom_endpoint s = None \<longrightarrow> mode (fst (init h s)) = Some VendorManaged))
   \<and> truthy (final_baseUrl h) =
       (baseUrl (aiAssistant (globalConfig h)) \<noteq> []
        \<or> (\<exists>v. N8N_AI_ASSISTANT_BASE_URL (env h) = Some v \<and> v \<noteq> []))
   \<and> truthy (final_apiKey h) =
       (apiKey (aiAssistant (globalConfig h)) \<noteq> []
        \<or> (\<exists>v. N8N_AI_ASSISTANT_API_KEY (env h) = Some v \<and> v \<noteq> []))"
proof -
  have "truthy (final_baseUrl h) \<and> truthy (final_apiKey h) \<longrightarrow>
      fst (init h s) =
        s\<lparr>useCustomEndpoint := True,
          customHttpClient := Some (AxiosInstance (axios_config h))\<rparr>
      \<and> filter is_construction (snd (init h s)) = [Axios_create (axios_config h)]
      \<and> mode (fst (init h s)) = Some DirectEndpoint"
    by (simp add: fst_init constructed_init endpoint_configured_def mode_def
                  custom_endpoint_def)
  moreover have "\<not> (truthy (final_baseUrl h) \<and> truthy (final_apiKey h)) \<longrightarrow>
      fst (init h s) = s\<lparr>client := Some (AiAssistantClient (client_options h))\<rparr>
      \<and> filter is_construction (snd (init h s)) = [New_AiAssistantClient (client_options h)]
      \<and> (custom_endpoint s = None \<longrightarrow> mode (fst (init h s)) = Some VendorManaged)"
    by (simp add: fst_init constructed_init endpoint_configured_def mode_def
                  custom_endpoint_def)
  ultimately show ?thesis
    using truthy_final_baseUrl [of h] truthy_final_apiKey [of h] by blast
qed

theorem init_selects_mode_witness:
  "truthy (final_baseUrl direct_host) \<and> truthy (final_apiKey direct_host)
   \<and> mode (fst (init direct_host new_AiService)) = Some DirectEndpoint
   \<and> customHttpClient (fst (init direct_host new_AiService))
       = Some (AxiosInstance (axios_config direct_host))
   \<and> \<not> truthy (final_apiKey vendor_host)
   \<and> custom_endpoint new_AiService = None
   \<and> mode (fst (init vendor_host new_AiService)) = Some VendorManaged
   \<and> client (fst (init vendor_host new_AiService))
       = Some (AiAssistantClient (client_options vendor_host))"
proof -
  have a: "truthy (final_baseUrl direct_host) \<and> truthy (final_apiKey direct_host)"
    by code_simp
  have b: "\<not> truthy (final_apiKey vendor_host)"
    by code_simp
  have c: "custom_endpoint new_AiService = None"
    by code_simp
  from a init_selects_mode [of direct_host new_AiService]
  have d: "fst (init direct_host new_AiService) =
      new_AiService\<lparr>useCustomEndpoint := True,
        customHttpClient := Some (AxiosInstance (axios_config direct_host))\<rparr>"
    and e: "mode (fst (init direct_host new_AiService)) = Some DirectEndpoint"
    by blast+
  from b c init_selects_mode [of vendor_host new_AiService]
  have f: "fst (init vendor_host new_AiService) =
      new_AiService\<lparr>client := Some (AiAssistantClient (client_options vendor_host))\<rparr>"
    and g: "mode (fst (init vendor_host new_AiService)) = Some VendorManaged"
    by blast+
  show ?thesis
    using a b c e g by (simp add: d f)
qed

section \<open>The direct endpoint: responses\<close>

text \<open>
  Claim C2, as the code has it. Let the service serve the call over the endpoint (it
  is in DirectEndpoint mode, or fresh under a configuration that names an endpoint) and
  let the post resolve with a response whose body is neither \<^verbatim>\<open>null\<close> nor
  \<^verbatim>\<open>undefined\<close>. Then \<^verbatim>\<open>chat\<close> throws nothing: it returns the request's
  \<^verbatim>\<open>sessionId\<close> as it came and exactly one message, with role \<^verbatim>\<open>assistant\<close> and type
  \<^verbatim>\<open>message\<close>. If the body holds \<^verbatim>\<open>choices[0].message.content = X\<close> and \<open>X\<close> is
  truthy (a non-empty string, say), the text of the message is \<open>X\<close>. If \<open>X\<close> is falsy
  (the empty string, \<^verbatim>\<open>null\<close>), or the body has no \<^verbatim>\<open>choices\<close> (an object without
  them, or a string, a number, a boolean or an array) or an empty list of them, the
  text is the literal \<^verbatim>\<open>No response from AI service\<close>.
\<close>

theorem chat_endpoint_response:
  assumes "custom_endpoint (fst (ensureInitialized h s)) = Some http"
    and "post be http ''/v1/chat/completions'' (chat_openAIPayload h payload user) = Inr response"
    and "obj_get response ''data'' = body"
    and "\<not> nullish body"
  shows
    "returned (chat h be payload user s) =
       Inr (JObj [(''sessionId'', obj_get payload ''sessionId''),
                  (''messages'',
                     JArr [JObj [(''role'', JStr ''assistant''), (''type'', JStr ''message''),
                                 (''text'',
                                  js_or (opt_get (opt_get (opt_index (js_get body ''choices'') 0)
                                                     ''message'') ''content'')
                                        (JStr ''No response from AI service''))]])])
     \<and> (js_get body ''choices'' = JArr (JObj f # cs) \<and> obj_get f ''message'' = JObj m
        \<and> obj_get m ''content'' = X \<and> truthy X \<longrightarrow>
      returned (chat h be payload user s) =
        Inr (JObj [(''sessionId'', obj_get payload ''sessionId''),
                   (''messages'',
                      JArr [JObj [(''role'', JStr ''assistant''), (''type'', JStr ''message''),
                                  (''text'', X)]])]))
     \<and> (js_get body ''choices'' = JArr (JObj f # cs) \<and> obj_get f ''message'' = JObj m
        \<and> obj_get m ''content'' = X \<and> \<not> truthy X \<longrightarrow>
      returned (chat h be payload user s) =
        Inr (JObj [(''sessionId'', obj_get payload ''sessionId''),
                   (''messages'',
                      JArr [JObj [(''role'', JStr ''assistant''), (''type'', JStr ''message''),
                                  (''text'', JStr ''No response from AI service'')]])]))
     \<and> (js_get body ''choices'' = JUndefined \<or> js_get body ''choices'' = JArr [] \<longrightarrow>
      returned (chat h be payload user s) =
        Inr (JObj [(''sessionId'', obj_get payload ''sessionId''),
                   (''messages'',
                      JArr [JObj [(''role'', JStr ''assistant''), (''type'', JStr ''message''),
                                  (''text'', JStr ''No response from AI service'')]])]))
     \<and> ((\<forall>d. body \<noteq> JObj d) \<longrightarrow>
      returned (chat h be payload user s) =
        Inr (JObj [(''sessionId'', obj_get payload ''sessionId''),
                   (''messages'',
                      JArr [JObj [(''role'', JStr ''assistant''), (''type'', JStr ''message''),
                                  (''text'', JStr ''No response from AI service'')]])]))"
proof -
  have r: "returned (chat h be payload user s) =
      Inr (JObj [(''sessionId'', obj_get payload ''sessionId''),
                 (''messages'',
                    JArr [JObj [(''role'', JStr ''assistant''), (''type'', JStr ''message''),
                                (''text'',
                                 js_or (opt_get (opt_get (opt_index (js_get body ''choices'') 0)
                                                    ''message'') ''content'')
                                       (JStr ''No response from AI service''))]])])"
    using assms
    by (simp add: returned_chat via_endpoint_resolved first_choice_content_defined)
  have n: "js_get body ''choices'' = JUndefined" if "\<forall>d. body \<noteq> JObj d"
    using that by (cases body) simp_all
  show ?thesis
    by (auto simp add: r n content_present content_absent js_or_def)
qed

theorem chat_endpoint_response_witness:
  "returned (chat direct_host (echo_backend (Inr (completion (JStr ''Hi there'')))) hello alice
      new_AiService) =
     Inr (JObj [(''sessionId'', JStr ''s1''),
                (''messages'',
                   JArr [JObj [(''role'', JStr ''assistant''), (''type'', JStr ''message''),
                               (''text'', JStr ''Hi there'')]])])
   \<and> returned (chat direct_host (echo_backend (Inr [(''status'', JNum 200), (''data'', JObj [])]))
        hello alice new_AiService) =
     Inr (JObj [(''sessionId'', JStr ''s1''),
                (''messages'',
                   JArr [JObj [(''role'', JStr ''assistant''), (''type'', JStr ''message''),
                               (''text'', JStr ''No response from AI service'')]])])
   \<and> returned (chat direct_host
        (echo_backend (Inr [(''status'', JNum 200), (''data'', JStr ''Bad Gateway'')]))
        hello alice new_AiService) =
     Inr (JObj [(''sessionId'', JStr ''s1''),
                (''messages'',
                   JArr [JObj [(''role'', JStr ''assistant''), (''type'', JStr ''message''),
                               (''text'', JStr ''No response from AI service'')]])])"
proof -
  have p: "\<And>r. post (echo_backend (Inr r)) (AxiosInstance (axios_config direct_host))
      ''/v1/chat/completions'' (chat_openAIPayload direct_host hello alice) = Inr r"
    by (simp add: echo_backend_def)
  have d1: "obj_get (completion (JStr ''Hi there'')) ''data'' =
      JObj [(''choices'', JArr [JObj [(''message'', JObj [(''content'', JStr ''Hi there'')])]])]"
    by (simp add: completion_def obj_get_Cons)
  have d2: "obj_get [(''status'', JNum 200), (''data'', JObj [])] ''data'' = JObj []"
    by (simp add: obj_get_Cons)
  have d3: "obj_get [(''status'', JNum 200), (''data'', JStr ''Bad Gateway'')] ''data''
      = JStr ''Bad Gateway''"
    by (simp add: obj_get_Cons)
  have n1: "\<not> nullish
      (JObj [(''choices'', JArr [JObj [(''message'', JObj [(''content'', JStr ''Hi there'')])]])])"
    by simp
  have n2: "\<not> nullish (JObj [])"
    by simp
  have n3: "\<not> nullish (JStr ''Bad Gateway'')"
    by simp
  have s: "obj_get hello ''sessionId'' = JStr ''s1''"
    by (simp add: hello_def obj_get_Cons)
  from chat_endpoint_response [OF direct_host_serves p d1 n1,
      where f = "[(''message'', JObj [(''content'', JStr ''Hi there'')])]" and cs = "[]"
        and m = "[(''content'', JStr ''Hi there'')]" and X = "JStr ''Hi there''"]
  have a: "returned (chat direct_host (echo_backend (Inr (completion (JStr ''Hi there''))))
      hello alice new_AiService) =
     Inr (JObj [(''sessionId'', JStr ''s1''),
                (''messages'',
                   JArr [JObj [(''role'', JStr ''assistant''), (''type'', JStr ''message''),
                               (''text'', JStr ''Hi there'')]])])"
    by (simp add: obj_get_Cons obj_get_Nil s content_present js_or_def)
  from chat_endpoint_response [OF direct_host_serves p d2 n2]
  have b: "returned (chat direct_host
        (echo_backend (Inr [(''status'', JNum 200), (''data'', JObj [])]))
        hello alice new_AiService) =
     Inr (JObj [(''sessionId'', JStr ''s1''),
                (''messages'',
                   JArr [JObj [(''role'', JStr ''assistant''), (''type'', JStr ''message''),
                               (''text'', JStr ''No response from AI service'')]])])"
    by (simp add: obj_get_Nil s content_absent js_or_def)
  from chat_endpoint_response [OF direct_host_serves p d3 n3]
  have c: "returned (chat direct_host
        (echo_backend (Inr [(''status'', JNum 200), (''data'', JStr ''Bad Gateway'')]))
        hello alice new_AiService) =
     Inr (JObj [(''sessionId'', JStr ''s1''),
                (''messages'',
                   JArr [JObj [(''role'', JStr ''assistant''), (''type'', JStr ''message''),
                               (''text'', JStr ''No response from AI service'')]])])"
    by (simp add: s content_absent js_or_def)
  show ?thesis
    using a b c by blast
qed

text \<open>
  The claim as the spec words it, text \<open>X\<close> for every content \<open>X\<close>, fails for the
  empty string: the response below holds \<^verbatim>\<open>choices[0].message.content = ""\<close>, and the
  text returned is the fallback literal.
\<close>

theorem chat_empty_content_counterexample:
  "obj_get (completion (JStr [])) ''data'' =
     JObj [(''choices'', JArr [JObj [(''message'', JObj [(''content'', JStr [])])]])]
   \<and> returned (chat direct_host (echo_backend (Inr (completion (JStr [])))) hello alice
        new_AiService) =
     Inr (JObj [(''sessionId'', JStr ''s1''),
                (''messages'',
                   JArr [JObj [(''role'', JStr ''assistant''), (''type'', JStr ''message''),
                               (''text'', JStr ''No response from AI service'')]])])
   \<and> returned (chat direct_host (echo_backend (Inr (completion (JStr [])))) hello alice
        new_AiService) \<noteq>
     Inr (JObj [(''sessionId'', JStr ''s1''),
                (''messages'',
                   JArr [JObj [(''role'', JStr ''assistant''), (''type'', JStr ''message''),
                               (''text'', JStr [])]])])"
  by code_simp

text \<open>
  A body that is \<^verbatim>\<open>null\<close> or \<^verbatim>\<open>undefined\<close> is the one case left out above: the
  read of \<^verbatim>\<open>aiResponse.choices\<close> is not optional, so it throws a \<^verbatim>\<open>TypeError\<close>, which
  the \<^verbatim>\<open>catch\<close> block wraps.
\<close>

lemma chat_nullish_body:
  assumes "custom_endpoint (fst (ensureInitialized h s)) = Some http"
    and "post be http ''/v1/chat/completions'' (chat_openAIPayload h payload user) = Inr response"
    and "nullish (obj_get response ''data'')"
  shows "returned (chat h be payload user s) =
     Inl (new_Error (''Custom AI service error: Unknown - ''
                     @ TypeError_message (runtime h) (obj_get response ''data'') ''choices''))"
  using assms
  by (simp add: returned_chat via_endpoint_unreadable first_choice_content_nullish
                custom_error_new_Error)

text \<open>
  Claim C3, as the code has it. Let the service serve the call over the endpoint and let
  the post resolve with a response whose body is an object. If the body holds a
  non-empty string as \<^verbatim>\<open>choices[0].message.content\<close>, that string goes to
  \<^verbatim>\<open>JSON.parse\<close>: when it parses, \<^verbatim>\<open>applySuggestion\<close> returns the request's
  \<^verbatim>\<open>sessionId\<close> and the parsed value as \<^verbatim>\<open>parameters\<close> (so \<^verbatim>\<open>{"a":1}\<close> gives the
  object \<^verbatim>\<open>{a: 1}\<close>); when \<^verbatim>\<open>JSON.parse\<close> throws, the \<^verbatim>\<open>catch\<close> block takes the error
  and \<^verbatim>\<open>applySuggestion\<close> fails with \<^verbatim>\<open>Custom AI service error: Unknown - \<close> followed
  by the parser's message. If the body has no \<^verbatim>\<open>choices\<close>, or an empty list of them,
  \<^verbatim>\<open>parameters\<close> is what \<^verbatim>\<open>JSON.parse('{}')\<close> gives, the empty object.
\<close>

theorem applySuggestion_endpoint_response:
  assumes "custom_endpoint (fst (ensureInitialized h s)) = Some http"
    and "post be http ''/v1/chat/completions'' (applySuggestion_openAIPayload h payload user)
           = Inr response"
    and "obj_get response ''data'' = JObj d"
  shows
    "(obj_get d ''choices'' = JArr (JObj f # cs) \<and> obj_get f ''message'' = JObj m
        \<and> obj_get m ''content'' = JStr content \<and> content \<noteq> []
        \<and> JSON_parse (runtime h) content = Inr v \<longrightarrow>
      returned (applySuggestion h be payload user s) =
        Inr (JObj [(''sessionId'', obj_get payload ''sessionId''), (''parameters'', v)]))
     \<and> (obj_get d ''choices'' = JArr (JObj f # cs) \<and> obj_get f ''message'' = JObj m
        \<and> obj_get m ''content'' = JStr content \<and> content \<noteq> []
        \<and> JSON_parse (runtime h) content = Inl e \<longrightarrow>
      returned (applySuggestion h be payload user s) = Inl (custom_error e))
     \<and> (obj_get d ''choices'' = JArr (JObj f # cs) \<and> obj_get f ''message'' = JObj m
        \<and> obj_get m ''content'' = JStr content \<and> content \<noteq> []
        \<and> JSON_parse (runtime h) content = Inl (new_Error msg) \<longrightarrow>
      returned (applySuggestion h be payload user s) =
        Inl (new_Error (''Custom AI service error: Unknown - '' @ msg)))
     \<and> ((obj_get d ''choices'' = JUndefined \<or> obj_get d ''choices'' = JArr [])
        \<and> JSON_parse (runtime h) ''{}'' = Inr v \<longrightarrow>
      returned (applySuggestion h be payload user s) =
        Inr (JObj [(''sessionId'', obj_get payload ''sessionId''), (''parameters'', v)]))"
proof -
  have r: "returned (applySuggestion h be payload user s) =
      (case JSON_parse (runtime h)
              (ToString (js_or (opt_get (opt_get (opt_index (obj_get d ''choices'') 0)
                                           ''message'') ''content'')
                               (JStr ''{}''))) of
         Inl e \<Rightarrow> Inl (custom_error e)
       | Inr parameters \<Rightarrow>
           Inr (JObj [(''sessionId'', obj_get payload ''sessionId''),
                      (''parameters'', parameters)]))"
    using assms
    by (simp add: returned_applySuggestion via_endpoint_resolved first_choice_content_object
             split: sum.splits)
  show ?thesis
    by (auto simp add: r content_present content_absent js_or_def custom_error_new_Error)
qed

theorem applySuggestion_endpoint_response_witness:
  \<open>returned (applySuggestion direct_host (echo_backend (Inr (completion (JStr ''{"a":1}''))))
      suggestion alice new_AiService) =
     Inr (JObj [(''sessionId'', JStr ''s1''), (''parameters'', JObj [(''a'', JNum 1)])])
   \<and> returned (applySuggestion direct_host
        (echo_backend (Inr (completion (JStr ''I have applied the suggestion.''))))
        suggestion alice new_AiService) =
     Inl (new_Error ''Custom AI service error: Unknown - Unexpected token in JSON'')
   \<and> returned (applySuggestion direct_host
        (echo_backend (Inr [(''status'', JNum 200), (''data'', JObj [])]))
        suggestion alice new_AiService) =
     Inr (JObj [(''sessionId'', JStr ''s1''), (''parameters'', JObj [])])\<close>
proof -
  have p: "\<And>r. post (echo_backend (Inr r)) (AxiosInstance (axios_config direct_host))
      ''/v1/chat/completions'' (applySuggestion_openAIPayload direct_host suggestion alice)
      = Inr r"
    by (simp add: echo_backend_def)
  have d: "\<And>c. obj_get (completion c) ''data'' =
      JObj [(''choices'', JArr [JObj [(''message'', JObj [(''content'', c)])]])]"
    by (simp add: completion_def obj_get_Cons)
  have s: "obj_get suggestion ''sessionId'' = JStr ''s1''"
    by (simp add: suggestion_def obj_get_Cons)
  have rt: "JSON_parse (runtime direct_host) = node_JSON_parse"
    by (simp add: direct_host_def node_def)
  have p1: \<open>node_JSON_parse ''{"a":1}'' = Inr (JObj [(''a'', JNum 1)])\<close>
    by code_simp
  have p2: "node_JSON_parse ''I have applied the suggestion.''
      = Inl (new_Error ''Unexpected token in JSON'')"
    by code_simp
  from applySuggestion_endpoint_response
      [OF direct_host_serves p d [of \<open>JStr ''{"a":1}''\<close>],
       where f = \<open>[(''message'', JObj [(''content'', JStr ''{"a":1}'')])]\<close> and cs = "[]"
         and m = \<open>[(''content'', JStr ''{"a":1}'')]\<close> and content = \<open>''{"a":1}''\<close>
         and v = "JObj [(''a'', JNum 1)]"] p1
  have a: \<open>returned (applySuggestion direct_host
        (echo_backend (Inr (completion (JStr ''{"a":1}'')))) suggestion alice new_AiService) =
     Inr (JObj [(''sessionId'', JStr ''s1''), (''parameters'', JObj [(''a'', JNum 1)])])\<close>
    by (simp add: obj_get_Cons obj_get_Nil s rt)
  from applySuggestion_endpoint_response
      [OF direct_host_serves p d [of "JStr ''I have applied the suggestion.''"],
       where f = "[(''message'', JObj [(''content'', JStr ''I have applied the suggestion.'')])]"
         and cs = "[]"
         and m = "[(''content'', JStr ''I have applied the suggestion.'')]"
         and content = "''I have applied the suggestion.''"
         and msg = "''Unexpected token in JSON''"] p2
  have b: "returned (applySuggestion direct_host
        (echo_backend (Inr (completion (JStr ''I have applied the suggestion.''))))
        suggestion alice new_AiService) =
     Inl (new_Error ''Custom AI service error: Unknown - Unexpected token in JSON'')"
    by (simp add: obj_get_Cons obj_get_Nil s rt)
  have d0: "obj_get [(''status'', JNum 200), (''data'', JObj [])] ''data'' = JObj []"
    by (simp add: obj_get_Cons)
  have p3: "node_JSON_parse ''{}'' = Inr (JObj [])"
    by code_simp
  from applySuggestion_endpoint_response [OF direct_host_serves p d0, where v = "JObj []"] p3
  have c: "returned (applySuggestion direct_host
        (echo_backend (Inr [(''status'', JNum 200), (''data'', JObj [])]))
        suggestion alice new_AiService) =
     Inr (JObj [(''sessionId'', JStr ''s1''), (''parameters'', JObj [])])"
    by (simp add: obj_get_Nil s rt)
  show ?thesis
    using a b c by blast
qed

text \<open>
  The claim as the spec words it, the empty object for a content that does not parse,
  fails: the content below is present and is not JSON, and the call fails with the
  wrapped parser error.
\<close>

theorem applySuggestion_unparsable_counterexample:
  "obj_get (completion (JStr ''I have applied the suggestion.'')) ''data'' =
     JObj [(''choices'',
            JArr [JObj [(''message'',
                         JObj [(''content'', JStr ''I have applied the suggestion.'')])]])]
   \<and> JSON_parse (runtime direct_host) ''I have applied the suggestion.''
       = Inl (new_Error ''Unexpected token in JSON'')
   \<and> returned (applySuggestion direct_host
        (echo_backend (Inr (completion (JStr ''I have applied the suggestion.''))))
        suggestion alice new_AiService) =
     Inl (new_Error ''Custom AI service error: Unknown - Unexpected token in JSON'')
   \<and> returned (applySuggestion direct_host
        (echo_backend (Inr (completion (JStr ''I have applied the suggestion.''))))
        suggestion alice new_AiService) \<noteq>
     Inr (JObj [(''sessionId'', JStr ''s1''), (''parameters'', JObj [])])"
  by code_simp

section \<open>The direct endpoint: failures\<close>

text \<open>
  Claim C4. Let the service serve the call over the endpoint and let the post be
  rejected with an error whose \<^verbatim>\<open>response\<close> has status 500 and the body
  \<^verbatim>\<open>{message: "boom"}\<close>. Then each of \<^verbatim>\<open>chat\<close>, \<^verbatim>\<open>applySuggestion\<close> and \<^verbatim>\<open>askAi\<close>
  throws one error, with the message \<^verbatim>\<open>Custom AI service error: 500 - boom\<close>, which
  contains both \<^verbatim>\<open>500\<close> and \<^verbatim>\<open>boom\<close>; nothing is returned.
\<close>

theorem endpoint_failure:
  assumes "custom_endpoint (fst (ensureInitialized h s)) = Some http"
    and "obj_get error ''response'' = JObj r"
    and "obj_get r ''status'' = JNum 500"
    and "obj_get r ''data'' = JObj [(''message'', JStr ''boom'')]"
  shows
    "(post be http ''/v1/chat/completions'' (chat_openAIPayload h payload user) = Inl error \<longrightarrow>
        returned (chat h be payload user s) =
          Inl (new_Error ''Custom AI service error: 500 - boom''))
     \<and> (post be http ''/v1/chat/completions'' (applySuggestion_openAIPayload h payload user)
          = Inl error \<longrightarrow>
        returned (applySuggestion h be payload user s) =
          Inl (new_Error ''Custom AI service error: 500 - boom''))
     \<and> (post be http ''/v1/chat/completions'' (askAi_openAIPayload h payload user) = Inl error \<longrightarrow>
        returned (askAi h be payload user s) =
          Inl (new_Error ''Custom AI service error: 500 - boom''))
     \<and> sublist ''500'' ''Custom AI service error: 500 - boom''
     \<and> sublist ''boom'' ''Custom AI service error: 500 - boom''"
proof -
  have m: "custom_error error = new_Error ''Custom AI service error: 500 - boom''"
    using assms(2-4) by (rule custom_error_boom)
  have a: "sublist ''500'' ''Custom AI service error: 500 - boom''"
    by code_simp
  have b: "sublist ''boom'' ''Custom AI service error: 500 - boom''"
    by code_simp
  show ?thesis
    using assms(1)
    by (simp add: returned_chat returned_applySuggestion returned_askAi via_endpoint_rejected
                  m a b)
qed

theorem endpoint_failure_witness:
  "returned (chat direct_host (echo_backend (Inl boom)) hello alice new_AiService) =
     Inl (new_Error ''Custom AI service error: 500 - boom'')
   \<and> returned (applySuggestion direct_host (echo_backend (Inl boom)) suggestion alice
        new_AiService) =
     Inl (new_Error ''Custom AI service error: 500 - boom'')
   \<and> returned (askAi direct_host (echo_backend (Inl boom)) question alice direct_service) =
     Inl (new_Error ''Custom AI service error: 500 - boom'')"
proof -
  have p: "\<And>http body. post (echo_backend (Inl boom)) http ''/v1/chat/completions'' body
      = Inl boom"
    by (simp add: echo_backend_def)
  have e: "obj_get boom ''response'' =
      JObj [(''status'', JNum 500), (''data'', JObj [(''message'', JStr ''boom'')])]"
    by (simp add: boom_def obj_get_Cons)
  have st: "obj_get [(''status'', JNum 500), (''data'', JObj [(''message'', JStr ''boom'')])]
      ''status'' = JNum 500"
    by (simp add: obj_get_Cons)
  have da: "obj_get [(''status'', JNum 500), (''data'', JObj [(''message'', JStr ''boom'')])]
      ''data'' = JObj [(''message'', JStr ''boom'')]"
    by (simp add: obj_get_Cons)
  have ds: "custom_endpoint (fst (ensureInitialized direct_host direct_service))
      = Some (AxiosInstance (axios_config direct_host))"
    by code_simp
  from endpoint_failure [OF direct_host_serves e st da,
      of "echo_backend (Inl boom)" hello alice] p
  have a: "returned (chat direct_host (echo_backend (Inl boom)) hello alice new_AiService) =
     Inl (new_Error ''Custom AI service error: 500 - boom'')"
    by blast
  from endpoint_failure [OF direct_host_serves e st da,
      of "echo_backend (Inl boom)" suggestion alice] p
  have b: "returned (applySuggestion direct_host (echo_backend (Inl boom)) suggestion alice
        new_AiService) =
     Inl (new_Error ''Custom AI service error: 500 - boom'')"
    by blast
  from endpoint_failure [OF ds e st da, of "echo_backend (Inl boom)" question alice] p
  have c: "returned (askAi direct_host (echo_backend (Inl boom)) question alice direct_service) =
     Inl (new_Error ''Custom AI service error: 500 - boom'')"
    by blast
  show ?thesis
    using a b c by blast
qed

section \<open>The vendor client\<close>

text \<open>
  Claim C7, as the code has it. In VendorManaged mode, with vendor client \<open>c\<close>,
  \<^verbatim>\<open>chat\<close>, \<^verbatim>\<open>applySuggestion\<close> and \<^verbatim>\<open>askAi\<close> make one call, on the method of \<open>c\<close>
  of the same name, with the request payload and the user reference
  \<^verbatim>\<open>{id: user.id}\<close>; \<^verbatim>\<open>createFreeAiCredits\<close> makes one call,
  \<^verbatim>\<open>generateAiCreditsCredentials\<close>, with the user object itself and no payload. Each
  returns what the vendor client answers, value or failure, as it is.
\<close>

theorem vendor_delegation:
  assumes "mode s = Some VendorManaged" and "client s = Some c"
  shows
    "returned (chat h be payload user s)
       = client_chat be c (JObj payload) (JObj [(''id'', obj_get user ''id'')])
     \<and> filter is_request (effects (chat h be payload user s))
       = [Client_call c ''chat'' [JObj payload, JObj [(''id'', obj_get user ''id'')]]]
     \<and> returned (applySuggestion h be payload user s)
       = client_applySuggestion be c (JObj payload) (JObj [(''id'', obj_get user ''id'')])
     \<and> filter is_request (effects (applySuggestion h be payload user s))
       = [Client_call c ''applySuggestion'' [JObj payload, JObj [(''id'', obj_get user ''id'')]]]
     \<and> returned (askAi h be payload user s)
       = client_askAi be c (JObj payload) (JObj [(''id'', obj_get user ''id'')])
     \<and> filter is_request (effects (askAi h be payload user s))
       = [Client_call c ''askAi'' [JObj payload, JObj [(''id'', obj_get user ''id'')]]]
     \<and> returned (createFreeAiCredits h be user s)
       = client_generateAiCreditsCredentials be c (JObj user)
     \<and> filter is_request (effects (createFreeAiCredits h be user s))
       = [Client_call c ''generateAiCreditsCredentials'' [JObj user]]"
proof -
  from assms(1) have e: "custom_endpoint s = None"
    by (simp add: mode_VendorManaged)
  from assms(2) have g: "ensureInitialized h s = (s, [])"
    by (rule vendor_guard)
  show ?thesis
    using assms(2) e g
    by (simp add: chat_def applySuggestion_def askAi_def createFreeAiCredits_def via_client_def)
qed

theorem vendor_delegation_witness:
  "mode vendor_service = Some VendorManaged
   \<and> returned (chat vendor_host (echo_backend (Inl boom)) hello alice vendor_service)
       = Inr (JArr [JObj hello, JObj [(''id'', JStr ''u1'')]])
   \<and> returned (createFreeAiCredits vendor_host (echo_backend (Inl boom)) alice vendor_service)
       = Inr (JArr [JObj alice])"
proof -
  have m: "mode vendor_service = Some VendorManaged"
    by code_simp
  have c: "client vendor_service = Some (AiAssistantClient (client_options vendor_host))"
    by (simp add: vendor_service_def)
  have i: "obj_get alice ''id'' = JStr ''u1''"
    by (simp add: alice_def obj_get_Cons)
  from vendor_delegation [OF m c, of vendor_host "echo_backend (Inl boom)" hello alice]
  have a: "returned (chat vendor_host (echo_backend (Inl boom)) hello alice vendor_service)
       = Inr (JArr [JObj hello, JObj [(''id'', JStr ''u1'')]])"
    and b: "returned (createFreeAiCredits vendor_host (echo_backend (Inl boom)) alice
        vendor_service) = Inr (JArr [JObj alice])"
    by (simp_all add: echo_backend_def i)
  show ?thesis
    using m a b by blast
qed

text \<open>
  The claim as the spec words it gives \<^verbatim>\<open>createFreeAiCredits\<close> the user reference
  \<^verbatim>\<open>{id: user.id}\<close> too. For a user with an \<^verbatim>\<open>email\<close> beside the \<^verbatim>\<open>id\<close> the call
  made and, with a vendor client that answers with its argument, the value returned
  both differ from that.
\<close>

theorem credits_user_reference_counterexample:
  "mode vendor_service = Some VendorManaged
   \<and> filter is_request
        (effects (createFreeAiCredits vendor_host (echo_backend (Inl boom)) alice vendor_service))
       = [Client_call (AiAssistantClient (client_options vendor_host))
            ''generateAiCreditsCredentials''
            [JObj [(''id'', JStr ''u1''), (''email'', JStr ''alice@example.com'')]]]
   \<and> filter is_request
        (effects (createFreeAiCredits vendor_host (echo_backend (Inl boom)) alice vendor_service))
       \<noteq> [Client_call (AiAssistantClient (client_options vendor_host))
            ''generateAiCreditsCredentials'' [JObj [(''id'', obj_get alice ''id'')]]]
   \<and> returned (createFreeAiCredits vendor_host (echo_backend (Inl boom)) alice vendor_service)
       \<noteq> client_generateAiCreditsCredentials (echo_backend (Inl boom))
            (AiAssistantClient (client_options vendor_host)) (JObj [(''id'', obj_get alice ''id'')])"
  by code_simp

text \<open>
  Claim C8. Under a configuration that names an endpoint, and with no vendor client
  (the service is in DirectEndpoint mode, or fresh), \<^verbatim>\<open>createFreeAiCredits\<close> runs
  \<^verbatim>\<open>init\<close>, which constructs no vendor client, and then fails the assertion: it throws
  \<^verbatim>\<open>Assistant client not setup\<close>, sends nothing to the endpoint and calls no vendor
  client.
\<close>

theorem credits_need_vendor_client:
  assumes "endpoint_configured h" and "client s = None"
  shows
    "returned (createFreeAiCredits h be user s) = Inl (new_Error ''Assistant client not setup'')
     \<and> filter is_request (effects (createFreeAiCredits h be user s)) = []
     \<and> client (service (createFreeAiCredits h be user s)) = None
     \<and> mode (service (createFreeAiCredits h be user s)) = Some DirectEndpoint"
  using assms
  by (simp add: createFreeAiCredits_def case_prod_beta fst_init via_client_def requests_init
                mode_def custom_endpoint_def)

theorem credits_need_vendor_client_witness:
  "endpoint_configured direct_host \<and> client direct_service = None
   \<and> mode direct_service = Some DirectEndpoint
   \<and> returned (createFreeAiCredits direct_host (echo_backend (Inr (completion JNull))) alice
        direct_service) = Inl (new_Error ''Assistant client not setup'')
   \<and> filter is_request
        (effects (createFreeAiCredits direct_host (echo_backend (Inr (completion JNull))) alice
           direct_service)) = []"
proof -
  have a: "endpoint_configured direct_host"
    by code_simp
  have b: "client direct_service = None"
    by (simp add: direct_service_def)
  have c: "mode direct_service = Some DirectEndpoint"
    by code_simp
  from credits_need_vendor_client [OF a b, of "echo_backend (Inr (completion JNull))" alice]
  show ?thesis
    using a b c by blast
qed

section \<open>The model header\<close>

text \<open>
  Claim C9. Under a configuration that names an endpoint, the HTTP client that
  \<^verbatim>\<open>init\<close> constructs has the default header \<^verbatim>\<open>X-Model\<close> exactly when the final model
  is non-empty, and its value is then the final model; the requests of the service go
  out on that client.
\<close>

theorem model_header:
  assumes "endpoint_configured h"
  shows
    "customHttpClient (fst (init h s)) = Some (AxiosInstance (axios_config h))
     \<and> (''X-Model'' \<in> fst ` set (default_headers (AxiosInstance (axios_config h))))
        = truthy (final_model h)
     \<and> (truthy (final_model h) \<longrightarrow>
          map_of (default_headers (AxiosInstance (axios_config h))) ''X-Model''
            = Some (final_model h))
     \<and> filter is_request (effects (chat h be payload user (fst (init h s))))
        = [Post (AxiosInstance (axios_config h)) ''/v1/chat/completions''
             (chat_openAIPayload h payload user)]"
proof -
  have a: "customHttpClient (fst (init h s)) = Some (AxiosInstance (axios_config h))"
    using assms by (simp add: fst_init)
  have b: "(''X-Model'' \<in> fst ` set (default_headers (AxiosInstance (axios_config h))))
      = truthy (final_model h)"
  proof -
    have "(''X-Model'' \<in> fst ` set (default_headers (AxiosInstance (axios_config h))))
        = (map_of (default_headers (AxiosInstance (axios_config h))) ''X-Model'' \<noteq> None)"
      by (simp only: map_of_eq_None_iff simp_thms)
    then show ?thesis
      by (simp only: X_Model_header) simp
  qed
  have c: "truthy (final_model h) \<longrightarrow>
      map_of (default_headers (AxiosInstance (axios_config h))) ''X-Model'' = Some (final_model h)"
    by (simp only: X_Model_header) simp
  have d: "filter is_request (effects (chat h be payload user (fst (init h s))))
      = [Post (AxiosInstance (axios_config h)) ''/v1/chat/completions''
           (chat_openAIPayload h payload user)]"
    using assms
    by (simp add: chat_def case_prod_beta fst_init ensureInitialized_def custom_endpoint_def
                  requests_via_endpoint)
  show ?thesis
    using a b c d by blast
qed

theorem model_header_witness:
  "endpoint_configured direct_host \<and> final_model direct_host = JStr ''llama3''
   \<and> map_of (default_headers (AxiosInstance (axios_config direct_host))) ''X-Model''
       = Some (JStr ''llama3'')
   \<and> customHttpClient (fst (init direct_host new_AiService))
       = Some (AxiosInstance (axios_config direct_host))
   \<and> endpoint_configured direct_host_no_model
   \<and> final_model direct_host_no_model = JUndefined
   \<and> ''X-Model'' \<notin> fst ` set (default_headers (AxiosInstance (axios_config direct_host_no_model)))"
proof -
  have a: "endpoint_configured direct_host"
    by (rule direct_host_configured)
  have b: "final_model direct_host = JStr ''llama3''"
    by code_simp
  have c: "truthy (final_model direct_host)"
    by (simp add: b)
  have d: "endpoint_configured direct_host_no_model"
    by code_simp
  have e: "final_model direct_host_no_model = JUndefined"
    by code_simp
  from model_header [OF a, of new_AiService "echo_backend (Inl boom)" hello alice] b c
  have f: "map_of (default_headers (AxiosInstance (axios_config direct_host))) ''X-Model''
       = Some (JStr ''llama3'')
     \<and> customHttpClient (fst (init direct_host new_AiService))
       = Some (AxiosInstance (axios_config direct_host))"
    by (simp del: default_headers.simps)
  from model_header [OF d, of new_AiService "echo_backend (Inl boom)" hello alice] e
  have g: "''X-Model'' \<notin> fst ` set (default_headers (AxiosInstance (axios_config direct_host_no_model)))"
    by (simp del: default_headers.simps)
  show ?thesis
    using a b d e f g by blast
qed

section \<open>Entitlement\<close>

text \<open>
  Claim C10. Two runs of \<^verbatim>\<open>init\<close> that differ only in what
  \<^verbatim>\<open>isAiAssistantEnabled()\<close> answers leave the same fields, hence the same mode, and
  construct the same client; the answer shows in the console output and nowhere else.
\<close>

theorem entitlement_observed_only:
  "fst (init (entitled a h) s) = fst (init (entitled b h) s)
   \<and> mode (fst (init (entitled a h) s)) = mode (fst (init (entitled b h) s))
   \<and> filter is_construction (snd (init (entitled a h) s))
       = filter is_construction (snd (init (entitled b h) s))
   \<and> Console_log [JStr ''AI Assistant enabled:'', JBool a] \<in> set (snd (init (entitled a h) s))
   \<and> fst (init (entitled a h) s) = fst (init h s)"
  by (simp add: fst_init constructed_init endpoint_configured_entitled axios_config_entitled
                client_options_entitled)
     (simp add: init_def init_console_def entitled_def)

theorem entitlement_observed_only_witness:
  "isAiAssistantEnabled (licenseService direct_host) = False
   \<and> fst (init (entitled True direct_host) new_AiService) = fst (init direct_host new_AiService)
   \<and> fst (init direct_host new_AiService) = direct_service
   \<and> fst (init (entitled False vendor_host) new_AiService) = vendor_service"
proof -
  have a: "isAiAssistantEnabled (licenseService direct_host) = False"
    by (simp add: direct_host_def)
  have b: "fst (init direct_host new_AiService) = direct_service"
    by code_simp
  have c: "fst (init vendor_host new_AiService) = vendor_service"
    by code_simp
  from entitlement_observed_only [of True direct_host new_AiService False]
  have d: "fst (init (entitled True direct_host) new_AiService) = fst (init direct_host new_AiService)"
    by blast
  from entitlement_observed_only [of False vendor_host new_AiService True]
  have "fst (init (entitled False vendor_host) new_AiService) = fst (init vendor_host new_AiService)"
    by blast
  with c have e: "fst (init (entitled False vendor_host) new_AiService) = vendor_service"
    by simp
  show ?thesis
    using a b d e by blast
qed

section \<open>Call sequences\<close>

text \<open>
  Two calls in a row, of the same operation or of two, from any state and with any
  answers of the backends. If neither call is \<^verbatim>\<open>createFreeAiCredits\<close>, or the
  configuration names no endpoint, or a vendor client exists already, the two calls
  together run the construction step of \<^verbatim>\<open>init\<close> at most once. Under a configuration
  that names an endpoint and with no vendor client, each call of
  \<^verbatim>\<open>createFreeAiCredits\<close> runs \<^verbatim>\<open>init\<close>.
\<close>

lemma two_calls_one_construction:
  "((\<not> is_credits c1 \<and> \<not> is_credits c2) \<or> \<not> endpoint_configured h \<or> client s \<noteq> None \<longrightarrow>
      constructions (effects (invoke h b1 c1 s)
                     @ effects (invoke h b2 c2 (service (invoke h b1 c1 s)))) \<le> 1)
   \<and> (endpoint_configured h \<and> client s = None \<longrightarrow>
      constructions (effects (createFreeAiCredits h b1 u1 s)
                     @ effects (createFreeAiCredits h b2 u2
                                  (service (createFreeAiCredits h b1 u1 s)))) = 2)"
proof (intro conjI impI)
  assume a: "(\<not> is_credits c1 \<and> \<not> is_credits c2) \<or> \<not> endpoint_configured h \<or> client s \<noteq> None"
  show "constructions (effects (invoke h b1 c1 s)
          @ effects (invoke h b2 c2 (service (invoke h b1 c1 s)))) \<le> 1"
  proof (cases "runs_init c1 s")
    case True
    with a have "\<not> runs_init c2 (fst (init h s))"
      by (auto simp add: runs_init_after_init)
    with True show ?thesis
      by (simp add: constructions_append constructions_invoke service_invoke)
  next
    case False
    then show ?thesis
      by (simp add: constructions_append constructions_invoke service_invoke)
  qed
next
  assume b: "endpoint_configured h \<and> client s = None"
  from b show "constructions (effects (createFreeAiCredits h b1 u1 s)
      @ effects (createFreeAiCredits h b2 u2 (service (createFreeAiCredits h b1 u1 s)))) = 2"
    by (simp add: constructions_append constructions_def constructed_createFreeAiCredits
                  service_createFreeAiCredits fst_init constructed_init)
qed

lemma two_calls_one_construction_example:
  "\<not> is_credits (Chat hello alice) \<and> \<not> is_credits (AskAi question alice)
   \<and> constructions
       (effects (invoke direct_host (echo_backend (Inl boom)) (Chat hello alice) new_AiService)
        @ effects (invoke direct_host (echo_backend (Inl boom)) (Chat hello alice)
            (service (invoke direct_host (echo_backend (Inl boom)) (Chat hello alice)
                        new_AiService)))) \<le> 1
   \<and> \<not> endpoint_configured vendor_host
   \<and> constructions
       (effects (invoke vendor_host (echo_backend (Inl boom)) (CreateFreeAiCredits alice)
                   new_AiService)
        @ effects (invoke vendor_host (echo_backend (Inl boom)) (CreateFreeAiCredits alice)
            (service (invoke vendor_host (echo_backend (Inl boom)) (CreateFreeAiCredits alice)
                        new_AiService)))) \<le> 1
   \<and> endpoint_configured direct_host \<and> client new_AiService = None
   \<and> constructions
       (effects (createFreeAiCredits direct_host (echo_backend (Inl boom)) alice new_AiService)
        @ effects (createFreeAiCredits direct_host (echo_backend (Inl boom)) alice
            (service (createFreeAiCredits direct_host (echo_backend (Inl boom)) alice
                        new_AiService)))) = 2"
proof -
  have a: "\<not> is_credits (Chat hello alice) \<and> \<not> is_credits (AskAi question alice)"
    by simp
  have b: "\<not> endpoint_configured vendor_host"
    by code_simp
  have c: "endpoint_configured direct_host \<and> client new_AiService = None"
    by code_simp
  from a two_calls_one_construction
         [where ?c1.0 = "Chat hello alice" and ?c2.0 = "Chat hello alice" and h = direct_host
            and s = new_AiService and ?b1.0 = "echo_backend (Inl boom)"
            and ?b2.0 = "echo_backend (Inl boom)"]
  have d: "constructions
       (effects (invoke direct_host (echo_backend (Inl boom)) (Chat hello alice) new_AiService)
        @ effects (invoke direct_host (echo_backend (Inl boom)) (Chat hello alice)
            (service (invoke direct_host (echo_backend (Inl boom)) (Chat hello alice)
                        new_AiService)))) \<le> 1"
    by blast
  from b two_calls_one_construction
         [where ?c1.0 = "CreateFreeAiCredits alice" and ?c2.0 = "CreateFreeAiCredits alice"
            and h = vendor_host and s = new_AiService and ?b1.0 = "echo_backend (Inl boom)"
            and ?b2.0 = "echo_backend (Inl boom)"]
  have e: "constructions
       (effects (invoke vendor_host (echo_backend (Inl boom)) (CreateFreeAiCredits alice)
                   new_AiService)
        @ effects (invoke vendor_host (echo_backend (Inl boom)) (CreateFreeAiCredits alice)
            (service (invoke vendor_host (echo_backend (Inl boom)) (CreateFreeAiCredits alice)
                        new_AiService)))) \<le> 1"
    by blast
  from c two_calls_one_construction
         [where h = direct_host and s = new_AiService and ?b1.0 = "echo_backend (Inl boom)"
            and ?u1.0 = alice and ?b2.0 = "echo_backend (Inl boom)" and ?u2.0 = alice]
  have f: "constructions
       (effects (createFreeAiCredits direct_host (echo_backend (Inl boom)) alice new_AiService)
        @ effects (createFreeAiCredits direct_host (echo_backend (Inl boom)) alice
            (service (createFreeAiCredits direct_host (echo_backend (Inl boom)) alice
                        new_AiService)))) = 2"
    by blast
  show ?thesis
    using a b c d e f by blast
qed

text \<open>
  Claim C5. Two calls of one operation in a row are to run the construction step of
  \<^verbatim>\<open>init\<close> at most once. \<^verbatim>\<open>chat\<close>, \<^verbatim>\<open>applySuggestion\<close> and \<^verbatim>\<open>askAi\<close> run
  \<^verbatim>\<open>init\<close> when neither handle is there (lines 90, 152, 209);
  \<^verbatim>\<open>createFreeAiCredits\<close> runs it when the vendor client is not there (line 266),
  without a look at the HTTP client. On a fresh service whose configuration names an
  endpoint, two calls of \<^verbatim>\<open>createFreeAiCredits\<close> therefore run \<^verbatim>\<open>init\<close> twice and
  construct two HTTP clients.
\<close>

theorem credits_twice_constructs_twice:
  "constructions
     (effects (createFreeAiCredits direct_host (echo_backend (Inl boom)) alice new_AiService)
      @ effects (createFreeAiCredits direct_host (echo_backend (Inl boom)) alice
          (service (createFreeAiCredits direct_host (echo_backend (Inl boom)) alice
                      new_AiService)))) = 2
   \<and> filter is_construction
       (effects (createFreeAiCredits direct_host (echo_backend (Inl boom)) alice new_AiService)
        @ effects (createFreeAiCredits direct_host (echo_backend (Inl boom)) alice
            (service (createFreeAiCredits direct_host (echo_backend (Inl boom)) alice
                        new_AiService))))
     = [Axios_create (axios_config direct_host), Axios_create (axios_config direct_host)]
   \<and> constructions
       (effects (chat direct_host (echo_backend (Inl boom)) hello alice new_AiService)
        @ effects (chat direct_host (echo_backend (Inl boom)) hello alice
            (service (chat direct_host (echo_backend (Inl boom)) hello alice new_AiService))))
     = 1"
  by code_simp

text \<open>
  Claim C6. Under a fixed configuration, take any starting state: the fresh service,
  or a state that a sequence of calls has made of it (or, more widely, any state that
  has at most one handle and has the HTTP client only if the configuration names an
  endpoint). Then before and after every call of every sequence of the four
  operations at most one of the two handles is there. The fresh state has none, and
  the state with both is never reached.
\<close>

theorem one_handle_at_a_time:
  "consistent h new_AiService
   \<and> (consistent h s \<longrightarrow> (\<forall>s' \<in> set (history h calls s). at_most_one s'))
   \<and> (\<forall>s' \<in> set (history h calls new_AiService). at_most_one s')
   \<and> (\<forall>s0 \<in> set (history h before new_AiService).
         \<forall>s' \<in> set (history h calls s0). at_most_one s')
   \<and> client new_AiService = None \<and> customHttpClient new_AiService = None"
proof (intro conjI impI ballI)
  show "consistent h new_AiService"
    by (rule consistent_new_AiService)
next
  fix s'
  assume "consistent h s" and "s' \<in> set (history h calls s)"
  then show "at_most_one s'"
    by (rule at_most_one_history)
next
  fix s'
  assume "s' \<in> set (history h calls new_AiService)"
  with consistent_new_AiService show "at_most_one s'"
    by (rule at_most_one_history)
next
  fix s0 s'
  assume "s0 \<in> set (history h before new_AiService)"
  with consistent_history [OF consistent_new_AiService, of h before]
  have "consistent h s0"
    by blast
  moreover assume "s' \<in> set (history h calls s0)"
  ultimately show "at_most_one s'"
    by (rule at_most_one_history)
next
  show "client new_AiService = None"
    by (simp add: new_AiService_def)
next
  show "customHttpClient new_AiService = None"
    by (simp add: new_AiService_def)
qed

theorem one_handle_at_a_time_witness:
  "consistent direct_host direct_service
   \<and> history direct_host
       [(echo_backend (Inl boom), Chat hello alice),
        (echo_backend (Inl boom), CreateFreeAiCredits alice)] direct_service
     = [direct_service, direct_service, direct_service]
   \<and> at_most_one direct_service
   \<and> history vendor_host
       [(echo_backend (Inl boom), CreateFreeAiCredits alice),
        (echo_backend (Inl boom), Chat hello alice)] new_AiService
     = [new_AiService, vendor_service, vendor_service]
   \<and> at_most_one vendor_service
   \<and> history direct_host [(echo_backend (Inl boom), CreateFreeAiCredits alice)] new_AiService
     = [new_AiService, direct_service]"
proof -
  have a: "consistent direct_host direct_service"
    by (simp add: consistent_def at_most_one_def direct_service_def direct_host_configured)
  have b: "history direct_host
       [(echo_backend (Inl boom), Chat hello alice),
        (echo_backend (Inl boom), CreateFreeAiCredits alice)] direct_service
     = [direct_service, direct_service, direct_service]"
    by (simp add: service_chat service_createFreeAiCredits fst_ensureInitialized
                  init_direct_service direct_service_def)
  have c: "history vendor_host
       [(echo_backend (Inl boom), CreateFreeAiCredits alice),
        (echo_backend (Inl boom), Chat hello alice)] new_AiService
     = [new_AiService, vendor_service, vendor_service]"
    by (simp add: service_chat service_createFreeAiCredits fst_ensureInitialized
                  init_vendor_service vendor_service_def new_AiService_def)
  have r: "history direct_host [(echo_backend (Inl boom), CreateFreeAiCredits alice)]
      new_AiService = [new_AiService, direct_service]"
    by (simp add: service_createFreeAiCredits init_direct_service direct_service_def
                  new_AiService_def)
  from a one_handle_at_a_time
         [where h = direct_host and s = direct_service
            and calls = "[(echo_backend (Inl boom), Chat hello alice),
                          (echo_backend (Inl boom), CreateFreeAiCredits alice)]"]
  have "\<forall>s' \<in> set (history direct_host
       [(echo_backend (Inl boom), Chat hello alice),
        (echo_backend (Inl boom), CreateFreeAiCredits alice)] direct_service). at_most_one s'"
    by blast
  then have d: "at_most_one direct_service"
    unfolding b by simp
  from one_handle_at_a_time
         [where h = vendor_host and s = new_AiService
            and calls = "[(echo_backend (Inl boom), CreateFreeAiCredits alice),
                          (echo_backend (Inl boom), Chat hello alice)]"]
  have "\<forall>s' \<in> set (history vendor_host
       [(echo_backend (Inl boom), CreateFreeAiCredits alice),
        (echo_backend (Inl boom), Chat hello alice)] new_AiService). at_most_one s'"
    by blast
  then have e: "at_most_one vendor_service"
    unfolding c by simp
  show ?thesis
    using a b c d e r by blast
qed

text \<open>
  The configuration has to stay as it is. A service that holds the HTTP client while
  the configuration names no endpoint, which takes a change of the configuration after
  \<^verbatim>\<open>init\<close>, gets the vendor client beside it from \<^verbatim>\<open>createFreeAiCredits\<close>: the test
  of line 266 again, which looks at the vendor client alone.
\<close>

lemma both_handles_after_configuration_change:
  "at_most_one direct_service
   \<and> \<not> endpoint_configured vendor_host
   \<and> history vendor_host [(echo_backend (Inl boom), CreateFreeAiCredits alice)] direct_service
     = [direct_service,
        \<lparr>client = Some (AiAssistantClient (client_options vendor_host)),
         customHttpClient = Some (AxiosInstance (axios_config direct_host)),
         useCustomEndpoint = True\<rparr>]
   \<and> \<not> at_most_one
         (last (history vendor_host [(echo_backend (Inl boom), CreateFreeAiCredits alice)]
                  direct_service))"
  by (simp add: service_createFreeAiCredits init_vendor_service vendor_host_not_configured
                direct_service_def at_most_one_def)

end
